theory Spec2Isabelle
  imports Complex_Main "HOL-Library.Char_ord" "HOL-Library.List_Lexorder"
begin

section \<open>Data model\<close>

text \<open>
  The sleep analyser works on pandas data frames. A time stamp is pandas'
  \<^verbatim>\<open>datetime64[ns]\<close>: an integer number of nanoseconds since 1970-01-01 00:00:00.
  Python floats are modelled as exact reals; the one float that is not a number, NaN,
  arises in this program only from aggregates over too few rows (the mean of no rows,
  the standard deviation of fewer than two) and is modelled as \<open>None\<close>.
  Every cell of a frame is present: empty CSV cells (NaT, NaN inside a column) are
  outside the model, as they are outside the data model of the specification.
\<close>

type_synonym timestamp = int

definition ns_per_second :: int where
  "ns_per_second = 1000000000"

definition ns_per_hour :: int where
  "ns_per_hour = 3600 * ns_per_second"

definition ns_per_day :: int where
  "ns_per_day = 24 * ns_per_hour"

text \<open>\<^verbatim>\<open>Series.dt.hour\<close>: the hour of the day, 0 to 23.\<close>

definition hour :: "timestamp \<Rightarrow> int" where
  "hour t = (t div ns_per_hour) mod 24"

text \<open>
  One row of the processed frame that \<^verbatim>\<open>process_sleep_data\<close> returns: the four input
  columns, parsed, and the five derived columns.
\<close>

record feature_row =
  date :: timestamp
  sleep_start :: timestamp
  sleep_end :: timestamp
  quality :: real
  duration :: real
  latency :: real
  day_of_week :: string
  rolling_avg_duration :: "real option"
  rolling_avg_quality :: "real option"

type_synonym feature_table = "feature_row list"

section \<open>Aggregates of the numeric library\<close>

text \<open>\<^verbatim>\<open>Series.mean()\<close>: NaN on an empty column.\<close>

definition mean :: "real list \<Rightarrow> real option" where
  "mean xs = (if xs = [] then None else Some (sum_list xs / real (length xs)))"

text \<open>
  \<^verbatim>\<open>Series.std()\<close>: the sample standard deviation (one delta degree of freedom),
  NaN when there are fewer than two values.
\<close>

definition std :: "real list \<Rightarrow> real option" where
  "std xs =
     (if length xs < 2 then None
      else let m = sum_list xs / real (length xs)
           in Some (sqrt (sum_list (map (\<lambda>x. (x - m)\<^sup>2) xs) / real (length xs - 1))))"

text \<open>A float comparison \<^verbatim>\<open>a > b\<close> where \<open>a\<close> may be NaN: false on NaN.\<close>

definition float_gt :: "real option \<Rightarrow> real \<Rightarrow> bool" where
  "float_gt a b = (case a of None \<Rightarrow> False | Some x \<Rightarrow> x > b)"

text \<open>
  \<^verbatim>\<open>Series.rolling(window, min_periods).mean()\<close> as the library computes it for a
  fixed window: one pass that keeps the running sum and the number of observations in
  the window, takes out the value that leaves the window, puts in the value that enters
  it, and emits the quotient, or NaN while fewer than \<^verbatim>\<open>min_periods\<close> values are in.
\<close>

function roll_mean :: "nat \<Rightarrow> nat \<Rightarrow> real list \<Rightarrow> nat \<Rightarrow> real \<Rightarrow> nat \<Rightarrow> real option list" where
  "roll_mean window minp xs i sum_x nobs =
     (if i < length xs
      then (let sum_d = (if window \<le> i then sum_x - xs ! (i - window) else sum_x);
                nobs_d = (if window \<le> i then nobs - 1 else nobs);
                sum_a = sum_d + xs ! i;
                nobs_a = nobs_d + 1
            in (if minp \<le> nobs_a \<and> 0 < nobs_a then Some (sum_a / real nobs_a) else None)
               # roll_mean window minp xs (i + 1) sum_a nobs_a)
      else [])"
  by pat_completeness auto
termination
  by (relation "measure (\<lambda>(window, minp, xs, i, sum_x, nobs). length xs - i)") auto

declare roll_mean.simps [simp del]

definition rolling_mean :: "nat \<Rightarrow> nat \<Rightarrow> real list \<Rightarrow> real option list" where
  "rolling_mean window minp xs = roll_mean window minp xs 0 0 0"

section \<open>Raw frames and their validation\<close>

text \<open>
  The frame that \<^verbatim>\<open>pd.read_csv\<close> hands to \<^verbatim>\<open>validate_data\<close>: its header and its rows.
  A cell of a date or time column is either the text read from the file or, once
  \<^verbatim>\<open>pd.to_datetime\<close> has been assigned to the column, a time stamp. Only the four
  columns the program reads are kept; the cells of a row under a name that is not in the
  header are never read.
\<close>

datatype cell = Text string | Stamp timestamp

record raw_row =
  date_cell :: cell
  sleep_start_cell :: cell
  sleep_end_cell :: cell
  quality_cell :: real

record dataframe =
  columns :: "string list"
  rows :: "raw_row list"

datatype error = ValueError string | DateParseError | KeyError string

subsection \<open>Parsing time stamps\<close>

text \<open>
  \<^verbatim>\<open>pd.to_datetime\<close> on text, for the two formats the program documents for its input:
  \<^verbatim>\<open>YYYY-MM-DD\<close> and \<^verbatim>\<open>YYYY-MM-DD HH:MM:SS\<close>. Any other text counts as unparsable
  here. The 64-bit range of pandas time stamps is not modelled.
\<close>

definition digit :: "char \<Rightarrow> nat option" where
  "digit c = (let n = (of_char c :: nat) in if 48 \<le> n \<and> n \<le> 57 then Some (n - 48) else None)"

definition number :: "string \<Rightarrow> nat option" where
  "number cs = map_option (foldl (\<lambda>a d. 10 * a + d) 0) (those (map digit cs))"

definition is_leap :: "nat \<Rightarrow> bool" where
  "is_leap y = (if y mod 400 = 0 then True else if y mod 100 = 0 then False else y mod 4 = 0)"

definition days_in_month :: "nat \<Rightarrow> nat \<Rightarrow> nat" where
  "days_in_month y m =
     (if m = 2 then (if is_leap y then 29 else 28)
      else if m = 4 \<or> m = 6 \<or> m = 9 \<or> m = 11 then 30 else 31)"

text \<open>Days from 1970-01-01 to a date of the proleptic Gregorian calendar.\<close>

definition days_from_civil :: "nat \<Rightarrow> nat \<Rightarrow> nat \<Rightarrow> int" where
  "days_from_civil y m d =
     (let y' = int y - (if m \<le> 2 then 1 else 0);
          era = y' div 400;
          yoe = y' - era * 400;
          mp = (int m + 9) mod 12;
          doy = (153 * mp + 2) div 5 + int d - 1;
          doe = yoe * 365 + yoe div 4 - yoe div 100 + doy
      in era * 146097 + doe - 719468)"

definition parse_date :: "string \<Rightarrow> int option" where
  "parse_date s =
     (if length s = 10 \<and> s ! 4 = CHR ''-'' \<and> s ! 7 = CHR ''-''
      then (case (number (take 4 s), number (take 2 (drop 5 s)), number (drop 8 s)) of
              (Some y, Some m, Some d) \<Rightarrow>
                if 1 \<le> m \<and> m \<le> 12 \<and> 1 \<le> d \<and> d \<le> days_in_month y m
                then Some (days_from_civil y m d) else None
            | _ \<Rightarrow> None)
      else None)"

text \<open>\<^verbatim>\<open>HH:MM:SS\<close> as the second of the day.\<close>

definition parse_time :: "string \<Rightarrow> int option" where
  "parse_time s =
     (if length s = 8 \<and> s ! 2 = CHR '':'' \<and> s ! 5 = CHR '':''
      then (case (number (take 2 s), number (take 2 (drop 3 s)), number (drop 6 s)) of
              (Some h, Some m, Some sec) \<Rightarrow>
                if h < 24 \<and> m < 60 \<and> sec < 60
                then Some (int (h * 3600 + m * 60 + sec)) else None
            | _ \<Rightarrow> None)
      else None)"

definition parse_datetime :: "string \<Rightarrow> timestamp option" where
  "parse_datetime s =
     (if length s = 10 then map_option (\<lambda>d. d * ns_per_day) (parse_date s)
      else if length s = 19 \<and> s ! 10 = CHR '' ''
      then (case (parse_date (take 10 s), parse_time (drop 11 s)) of
              (Some d, Some t) \<Rightarrow> Some (d * ns_per_day + t * ns_per_second)
            | _ \<Rightarrow> None)
      else None)"

fun to_datetime_cell :: "cell \<Rightarrow> timestamp option" where
  "to_datetime_cell (Stamp t) = Some t"
| "to_datetime_cell (Text s) = parse_datetime s"

text \<open>\<^verbatim>\<open>pd.to_datetime\<close> on a column: it raises when one cell does not parse.\<close>

definition to_datetime :: "cell list \<Rightarrow> error + timestamp list" where
  "to_datetime cs =
     (case those (map to_datetime_cell cs) of
        None \<Rightarrow> Inl DateParseError
      | Some ts \<Rightarrow> Inr ts)"

subsection \<open>\<^verbatim>\<open>validate_data\<close>\<close>

text \<open>
  The assignments \<^verbatim>\<open>df['date'] = ...\<close>, \<^verbatim>\<open>df['sleep_start'] = ...\<close> and
  \<^verbatim>\<open>df['sleep_end'] = ...\<close> on the rows of a frame.
\<close>

definition assign_date :: "timestamp list \<Rightarrow> raw_row list \<Rightarrow> raw_row list" where
  "assign_date ts rs = map2 (\<lambda>t r. r\<lparr>date_cell := Stamp t\<rparr>) ts rs"

definition assign_sleep_start :: "timestamp list \<Rightarrow> raw_row list \<Rightarrow> raw_row list" where
  "assign_sleep_start ts rs = map2 (\<lambda>t r. r\<lparr>sleep_start_cell := Stamp t\<rparr>) ts rs"

definition assign_sleep_end :: "timestamp list \<Rightarrow> raw_row list \<Rightarrow> raw_row list" where
  "assign_sleep_end ts rs = map2 (\<lambda>t r. r\<lparr>sleep_end_cell := Stamp t\<rparr>) ts rs"

definition required_columns :: "string list" where
  "required_columns = [''date'', ''sleep_start'', ''sleep_end'', ''quality'']"

text \<open>
  \<^verbatim>\<open>validate_data\<close> works on the caller's frame, so the model returns, next to the value
  returned or the exception raised, the frame as the call leaves it.
\<close>

definition validate_data :: "dataframe \<Rightarrow> (error + bool) \<times> dataframe" where
  "validate_data df =
     (if \<not> list_all (\<lambda>col. col \<in> set (columns df)) required_columns
      then (Inl (ValueError ''Missing required columns. Please ensure your CSV contains: date, sleep_start, sleep_end, quality''), df)
      else case to_datetime (map date_cell (rows df)) of
        Inl e \<Rightarrow> (Inl e, df)
      | Inr dates \<Rightarrow>
         (let df1 = df\<lparr>rows := assign_date dates (rows df)\<rparr>
          in case to_datetime (map sleep_start_cell (rows df1)) of
            Inl e \<Rightarrow> (Inl e, df1)
          | Inr starts \<Rightarrow>
             (let df2 = df1\<lparr>rows := assign_sleep_start starts (rows df1)\<rparr>
              in case to_datetime (map sleep_end_cell (rows df2)) of
                Inl e \<Rightarrow> (Inl e, df2)
              | Inr ends \<Rightarrow>
                 (let df3 = df2\<lparr>rows := assign_sleep_end ends (rows df2)\<rparr>
                  in if \<not> list_all (\<lambda>r. 0 \<le> quality_cell r \<and> quality_cell r \<le> 100) (rows df3)
                     then (Inl (ValueError ''Sleep quality scores must be between 0 and 100''), df3)
                     else (Inr True, df3)))))"

section \<open>\<^verbatim>\<open>process_sleep_data\<close>\<close>

text \<open>\<^verbatim>\<open>Timedelta.total_seconds()\<close> of a difference of time stamps.\<close>

definition total_seconds :: "int \<Rightarrow> real" where
  "total_seconds td = real_of_int td / real_of_int ns_per_second"

text \<open>\<^verbatim>\<open>dt.normalize()\<close>: midnight of the same day.\<close>

definition normalize :: "timestamp \<Rightarrow> timestamp" where
  "normalize t = t - t mod ns_per_day"

text \<open>\<^verbatim>\<open>dt.day_name()\<close>; 1970-01-01 was a Thursday.\<close>

definition day_name :: "timestamp \<Rightarrow> string" where
  "day_name t =
     [''Monday'', ''Tuesday'', ''Wednesday'', ''Thursday'', ''Friday'', ''Saturday'', ''Sunday'']
       ! nat ((t div ns_per_day + 3) mod 7)"

text \<open>
  \<^verbatim>\<open>process_sleep_data\<close> starts from a copy of its argument, so nothing of the caller's
  frame changes and the model returns the new table only. Reading a column that the
  header does not have raises \<^verbatim>\<open>KeyError\<close>.
\<close>

definition process_sleep_data :: "dataframe \<Rightarrow> error + feature_table" where
  "process_sleep_data df =
     (if ''date'' \<notin> set (columns df) then Inl (KeyError ''date'')
      else case to_datetime (map date_cell (rows df)) of
        Inl e \<Rightarrow> Inl e
      | Inr dates \<Rightarrow>
     (if ''sleep_start'' \<notin> set (columns df) then Inl (KeyError ''sleep_start'')
      else case to_datetime (map sleep_start_cell (rows df)) of
        Inl e \<Rightarrow> Inl e
      | Inr starts \<Rightarrow>
     (if ''sleep_end'' \<notin> set (columns df) then Inl (KeyError ''sleep_end'')
      else case to_datetime (map sleep_end_cell (rows df)) of
        Inl e \<Rightarrow> Inl e
      | Inr ends \<Rightarrow>
     (let durations = map2 (\<lambda>e s. total_seconds (e - s) / 3600) ends starts;
          ideal_bedtime = map (\<lambda>d. normalize d + 22 * ns_per_hour) dates;
          latencies = map2 (\<lambda>s b. total_seconds (s - b) / 60) starts ideal_bedtime;
          day_names = map day_name dates;
          rolling_durations = rolling_mean 7 1 durations
      in if ''quality'' \<notin> set (columns df) then Inl (KeyError ''quality'')
         else
           (let qualities = map quality_cell (rows df);
                rolling_qualities = rolling_mean 7 1 qualities
            in Inr (map (\<lambda>i. \<lparr>date = dates ! i, sleep_start = starts ! i,
                                sleep_end = ends ! i, quality = qualities ! i,
                                duration = durations ! i, latency = latencies ! i,
                                day_of_week = day_names ! i,
                                rolling_avg_duration = rolling_durations ! i,
                                rolling_avg_quality = rolling_qualities ! i\<rparr>)
                       [0 ..< length (rows df)]))))))"

section \<open>The statistics\<close>

record metrics =
  avg_duration :: "real option"
  efficiency :: "real option"
  avg_latency :: "real option"
  quality_score :: "real option"
  consistency :: "real option"

text \<open>Arithmetic on a NaN gives NaN, hence \<open>map_option\<close>.\<close>

definition calculate_sleep_metrics :: "feature_table \<Rightarrow> metrics" where
  "calculate_sleep_metrics df =
     \<lparr>avg_duration = mean (map duration df),
      efficiency = map_option (\<lambda>m. (m / 8) * 100) (mean (map duration df)),
      avg_latency = mean (map latency df),
      quality_score = mean (map quality df),
      consistency = map_option (\<lambda>s. 100 - s * 10) (std (map duration df))\<rparr>"

subsection \<open>\<^verbatim>\<open>perform_statistical_analysis\<close>\<close>

text \<open>
  The analysis is one dictionary literal, evaluated entry by entry; an exception in one
  entry ends the call and nothing is returned. The aggregates it uses follow. Where the
  source formats a number into a text (two decimals and a unit, \<^verbatim>\<open>"n nights"\<close>,
  \<^verbatim>\<open>"h:00"\<close>), the model keeps the number.
\<close>

text \<open>Float comparisons \<^verbatim>\<open>a >= b\<close> and \<^verbatim>\<open>a < b\<close>: false on NaN.\<close>

definition float_ge :: "real option \<Rightarrow> real \<Rightarrow> bool" where
  "float_ge a b = (case a of None \<Rightarrow> False | Some x \<Rightarrow> x \<ge> b)"

definition float_lt :: "real option \<Rightarrow> real \<Rightarrow> bool" where
  "float_lt a b = (case a of None \<Rightarrow> False | Some x \<Rightarrow> x < b)"

text \<open>\<^verbatim>\<open>Series.median()\<close>, \<^verbatim>\<open>min()\<close> and \<^verbatim>\<open>max()\<close>: NaN on an empty column.\<close>

definition median :: "real list \<Rightarrow> real option" where
  "median xs =
     (if xs = [] then None
      else let s = sort xs; n = length xs
           in Some (if even n then (s ! (n div 2 - 1) + s ! (n div 2)) / 2 else s ! (n div 2)))"

fun minimum :: "real list \<Rightarrow> real option" where
  "minimum [] = None"
| "minimum (x # xs) = Some (fold min xs x)"

fun maximum :: "real list \<Rightarrow> real option" where
  "maximum [] = None"
| "maximum (x # xs) = Some (fold max xs x)"

text \<open>A difference of two floats, NaN when one of them is.\<close>

definition float_minus :: "real option \<Rightarrow> real option \<Rightarrow> real option" where
  "float_minus a b = (case (a, b) of (Some x, Some y) \<Rightarrow> Some (x - y) | _ \<Rightarrow> None)"

text \<open>
  \<^verbatim>\<open>Series.mode()[0]\<close>: the modes come sorted, so label 0 is the smallest of the most
  frequent values; on an empty column there is no label 0 and the lookup raises
  \<^verbatim>\<open>KeyError\<close>.
\<close>

definition mode_0 :: "int list \<Rightarrow> error + int" where
  "mode_0 hs =
     (case filter (\<lambda>h. count_list hs h = fold max (map (count_list hs) hs) 0) hs of
        [] \<Rightarrow> Inl (KeyError ''0'')
      | h # rest \<Rightarrow> Inr (fold min rest h))"

text \<open>
  \<^verbatim>\<open>df.groupby('day_of_week')[col]\<close>: the values of a column per day name, the groups in
  the sorted order of the names.
\<close>

definition groupby_day_of_week :: "(feature_row \<Rightarrow> real) \<Rightarrow> feature_table \<Rightarrow> (string \<times> real list) list" where
  "groupby_day_of_week col df =
     map (\<lambda>day. (day, map col (filter (\<lambda>r. day_of_week r = day) df)))
       (sort (remdups (map day_of_week df)))"

text \<open>
  What the program takes from libraries whose behaviour is not fixed by the program and
  differs between their versions, as a parameter of the analysis: the three functions of
  \<^verbatim>\<open>scipy.stats\<close> that it calls on the duration column, each returning a float, NaN
  included, or raising (of \<^verbatim>\<open>normaltest\<close> the program reads component 1, the
  p-value); and what \<^verbatim>\<open>idxmax\<close> and \<^verbatim>\<open>idxmin\<close> of the data frame library do on
  values that are all NaN: answer NaN (\<open>None\<close>) or raise.
\<close>

record libraries =
  skew :: "real list \<Rightarrow> error + real option"
  kurtosis :: "real list \<Rightarrow> error + real option"
  normaltest :: "real list \<Rightarrow> error + real option"
  idx_all_nan :: "error option"

text \<open>
  \<^verbatim>\<open>Series.idxmax()\<close> and \<^verbatim>\<open>Series.idxmin()\<close> on the aggregate of the groups: NaN
  values are skipped and the label of the first extreme value is returned; an empty
  series raises.
\<close>

definition valid_entries :: "(string \<times> real option) list \<Rightarrow> (string \<times> real) list" where
  "valid_entries kvs = concat (map (\<lambda>(k, v). case v of None \<Rightarrow> [] | Some x \<Rightarrow> [(k, x)]) kvs)"

definition first_extreme ::
  "string \<Rightarrow> (real \<Rightarrow> real \<Rightarrow> bool) \<Rightarrow> libraries \<Rightarrow> (string \<times> real option) list \<Rightarrow>
     error + string option" where
  "first_extreme message better lib kvs =
     (if kvs = [] then Inl (ValueError message)
      else case valid_entries kvs of
        [] \<Rightarrow> (case idx_all_nan lib of Some e \<Rightarrow> Inl e | None \<Rightarrow> Inr None)
      | kv # rest \<Rightarrow>
          Inr (Some (fst (fold (\<lambda>new best. if better (snd new) (snd best) then new else best)
                            rest kv))))"

definition idxmax :: "libraries \<Rightarrow> (string \<times> real option) list \<Rightarrow> error + string option" where
  "idxmax = first_extreme ''attempt to get argmax of an empty sequence'' (\<lambda>new best. new > best)"

definition idxmin :: "libraries \<Rightarrow> (string \<times> real option) list \<Rightarrow> error + string option" where
  "idxmin = first_extreme ''attempt to get argmin of an empty sequence'' (\<lambda>new best. new < best)"

text \<open>
  \<^verbatim>\<open>Series.corr\<close>, the Pearson correlation: NaN when one of the columns has no
  variation, which includes fewer than two rows.
\<close>

definition corr :: "real list \<Rightarrow> real list \<Rightarrow> real option" where
  "corr xs ys =
     (let n = real (length xs);
          mx = sum_list xs / n;
          my = sum_list ys / n;
          sxy = sum_list (map2 (\<lambda>x y. (x - mx) * (y - my)) xs ys);
          sxx = sum_list (map (\<lambda>x. (x - mx)\<^sup>2) xs);
          syy = sum_list (map (\<lambda>y. (y - my)\<^sup>2) ys)
      in if sxx = 0 \<or> syy = 0 then None else Some (sxy / sqrt (sxx * syy)))"

text \<open>The three interpretation functions; on NaN every comparison fails.\<close>

definition get_duration_interpretation :: "real option \<Rightarrow> string" where
  "get_duration_interpretation avg =
     (if float_ge avg 8 then ''Optimal sleep duration achieved''
      else if float_ge avg 7 then ''Good sleep duration, but could be improved''
      else if float_ge avg 6 then ''Below recommended sleep duration''
      else ''Significantly below recommended sleep duration'')"

definition get_quality_interpretation :: "real option \<Rightarrow> string" where
  "get_quality_interpretation avg =
     (if float_ge avg 90 then ''Excellent sleep quality''
      else if float_ge avg 80 then ''Good sleep quality''
      else if float_ge avg 70 then ''Fair sleep quality''
      else ''Poor sleep quality, improvement needed'')"

definition get_consistency_interpretation :: "real option \<Rightarrow> string" where
  "get_consistency_interpretation time_std =
     (if float_lt time_std 0.5 then ''Very consistent sleep schedule''
      else if float_lt time_std 1 then ''Moderately consistent sleep schedule''
      else if float_lt time_std 1.5 then ''Somewhat inconsistent sleep schedule''
      else ''Highly irregular sleep schedule'')"

text \<open>The returned dictionary, one record per section.\<close>

record sleep_duration =
  Average_Sleep :: "real option"
  Median_Sleep :: "real option"
  Standard_Deviation :: "real option"
  Minimum :: "real option"
  Maximum :: "real option"
  Range_Sleep :: "real option"
  Skewness :: "real option"
  Kurtosis :: "real option"
  Is_Normal_Distribution :: string

record sleep_quality =
  Average_Quality :: "real option"
  Median_Quality :: "real option"
  Quality_Variation :: "real option"
  Best_Quality :: "real option"
  Lowest_Quality :: "real option"
  Quality_Distribution :: "(string \<times> nat) list"

record sleep_patterns =
  Average_Bedtime :: "real option"
  Most_Common_Bedtime :: int
  Average_Wake_Time :: "real option"
  Sleep_Schedule_Consistency :: "real option"
  Best_Sleep_Day :: "string option"
  Longest_Sleep_Day :: "string option"
  Most_Consistent_Day :: "string option"

record correlations =
  Duration_vs_Quality :: "real option"
  Interpretation_Sleep_Duration :: string
  Interpretation_Sleep_Quality :: string
  Interpretation_Schedule_Consistency :: string

record analysis =
  Sleep_Duration :: sleep_duration
  Sleep_Quality :: sleep_quality
  Sleep_Patterns :: sleep_patterns
  Correlations :: correlations

definition perform_statistical_analysis :: "libraries \<Rightarrow> feature_table \<Rightarrow> error + analysis" where
  "perform_statistical_analysis lib df =
     (let durations = map duration df;
          qualities = map quality df;
          bedtimes = map (\<lambda>r. hour (sleep_start r)) df;
          wake_times = map (\<lambda>r. hour (sleep_end r)) df
      in case skew lib durations of Inl e \<Rightarrow> Inl e | Inr skewness \<Rightarrow>
         case kurtosis lib durations of Inl e \<Rightarrow> Inl e | Inr kurt \<Rightarrow>
         case normaltest lib durations of Inl e \<Rightarrow> Inl e | Inr p_value \<Rightarrow>
         case mode_0 bedtimes of Inl e \<Rightarrow> Inl e | Inr most_common \<Rightarrow>
         case idxmax lib (map (\<lambda>(day, vs). (day, mean vs)) (groupby_day_of_week quality df)) of
           Inl e \<Rightarrow> Inl e | Inr best_day \<Rightarrow>
         case idxmax lib (map (\<lambda>(day, vs). (day, mean vs)) (groupby_day_of_week duration df)) of
           Inl e \<Rightarrow> Inl e | Inr longest_day \<Rightarrow>
         case idxmin lib (map (\<lambda>(day, vs). (day, std vs)) (groupby_day_of_week duration df)) of
           Inl e \<Rightarrow> Inl e | Inr consistent_day \<Rightarrow>
         Inr \<lparr>Sleep_Duration =
                \<lparr>Average_Sleep = mean durations,
                 Median_Sleep = median durations,
                 Standard_Deviation = std durations,
                 Minimum = minimum durations,
                 Maximum = maximum durations,
                 Range_Sleep = float_minus (maximum durations) (minimum durations),
                 Skewness = skewness,
                 Kurtosis = kurt,
                 Is_Normal_Distribution = (if float_gt p_value 0.05 then ''Yes'' else ''No'')\<rparr>,
              Sleep_Quality =
                \<lparr>Average_Quality = mean qualities,
                 Median_Quality = median qualities,
                 Quality_Variation = std qualities,
                 Best_Quality = maximum qualities,
                 Lowest_Quality = minimum qualities,
                 Quality_Distribution =
                   [(''Excellent (90-100)'', length (filter (\<lambda>r. quality r \<ge> 90) df)),
                    (''Good (80-89)'',
                     length (filter (\<lambda>r. quality r \<ge> 80 \<and> quality r < 90) df)),
                    (''Fair (70-79)'',
                     length (filter (\<lambda>r. quality r \<ge> 70 \<and> quality r < 80) df)),
                    (''Poor (<70)'', length (filter (\<lambda>r. quality r < 70) df))]\<rparr>,
              Sleep_Patterns =
                \<lparr>Average_Bedtime = mean (map real_of_int bedtimes),
                 Most_Common_Bedtime = most_common,
                 Average_Wake_Time = mean (map real_of_int wake_times),
                 Sleep_Schedule_Consistency =
                   map_option (\<lambda>s. 100 - s * 10) (std (map real_of_int bedtimes)),
                 Best_Sleep_Day = best_day,
                 Longest_Sleep_Day = longest_day,
                 Most_Consistent_Day = consistent_day\<rparr>,
              Correlations =
                \<lparr>Duration_vs_Quality = corr durations qualities,
                 Interpretation_Sleep_Duration = get_duration_interpretation (mean durations),
                 Interpretation_Sleep_Quality = get_quality_interpretation (mean qualities),
                 Interpretation_Schedule_Consistency =
                   get_consistency_interpretation (std (map real_of_int bedtimes))\<rparr>\<rparr>)"

section \<open>The disorder detector\<close>

text \<open>
  \<^verbatim>\<open>SleepDisorderDetector.__init__\<close> stores the thresholds in
  \<^verbatim>\<open>self.disorder_patterns\<close>; the detectors read them from there, so in the model
  they take the thresholds as their first argument.
\<close>

record insomnia_patterns =
  short_sleep :: real
  low_quality :: real
  high_latency :: real

record irregular_rhythm_patterns =
  time_variance :: real
  schedule_inconsistency :: real

record delayed_sleep_patterns =
  late_bedtime :: int
  late_wake :: int
  pattern_days :: int

record disorder_patterns =
  insomnia :: insomnia_patterns
  irregular_rhythm :: irregular_rhythm_patterns
  delayed_sleep :: delayed_sleep_patterns

definition SleepDisorderDetector_init :: disorder_patterns where
  "SleepDisorderDetector_init =
     \<lparr>insomnia = \<lparr>short_sleep = 6.0, low_quality = 70, high_latency = 30\<rparr>,
      irregular_rhythm = \<lparr>time_variance = 2.0, schedule_inconsistency = 1.5\<rparr>,
      delayed_sleep = \<lparr>late_bedtime = 24, late_wake = 9, pattern_days = 5\<rparr>\<rparr>"

text \<open>
  The evidence strings of the source are f-strings around one number each. The model keeps
  which message it is and the number interpolated, not the formatted text.
\<close>

datatype evidence_item =
    Short_sleep_duration nat
  | Poor_sleep_quality nat
  | Highly_variable_sleep_times "real option"
  | Inconsistent_wake_times "real option"
  | Late_bedtime_pattern nat
  | Late_wake_time_pattern nat

record risk =
  risk_level :: real
  confidence :: real
  evidence :: "evidence_item list"

text \<open>
  One rule of a detector: when its condition holds, the three statements of the
  \<^verbatim>\<open>if\<close> body run on the local variables \<^verbatim>\<open>risk_level\<close>, \<^verbatim>\<open>evidence\<close>,
  \<^verbatim>\<open>confidence\<close>, held here in one record.
\<close>

definition fire :: "bool \<Rightarrow> real \<Rightarrow> evidence_item \<Rightarrow> real \<Rightarrow> risk \<Rightarrow> risk" where
  "fire cond dr ev dc s =
     (if cond
      then s\<lparr>risk_level := risk_level s + dr,
             evidence := evidence s @ [ev],
             confidence := confidence s + dc\<rparr>
      else s)"

definition no_risk :: risk where
  "no_risk = \<lparr>risk_level = 0, confidence = 0, evidence = []\<rparr>"

text \<open>The returned dictionary: only \<^verbatim>\<open>risk_level\<close> goes through \<^verbatim>\<open>min(_, 1.0)\<close>.\<close>

definition result :: "risk \<Rightarrow> risk" where
  "result s = \<lparr>risk_level = min (risk_level s) 1.0, confidence = confidence s,
               evidence = evidence s\<rparr>"

definition detect_insomnia :: "disorder_patterns \<Rightarrow> feature_table \<Rightarrow> risk" where
  "detect_insomnia p df =
     (let short_sleep_days = length (filter (\<lambda>r. duration r < short_sleep (insomnia p)) df);
          low_quality_days = length (filter (\<lambda>r. quality r < low_quality (insomnia p)) df);
          s1 = fire (real short_sleep_days \<ge> real (length df) * 0.3)
                 0.4 (Short_sleep_duration short_sleep_days) 0.3 no_risk;
          s2 = fire (real low_quality_days \<ge> real (length df) * 0.3)
                 0.3 (Poor_sleep_quality low_quality_days) 0.3 s1
      in result s2)"

definition detect_irregular_rhythm :: "disorder_patterns \<Rightarrow> feature_table \<Rightarrow> risk" where
  "detect_irregular_rhythm p df =
     (let sleep_time_std = std (map (\<lambda>r. real_of_int (hour (sleep_start r))) df);
          wake_time_std = std (map (\<lambda>r. real_of_int (hour (sleep_end r))) df);
          s1 = fire (float_gt sleep_time_std (schedule_inconsistency (irregular_rhythm p)))
                 0.5 (Highly_variable_sleep_times sleep_time_std) 0.4 no_risk;
          s2 = fire (float_gt wake_time_std (schedule_inconsistency (irregular_rhythm p)))
                 0.3 (Inconsistent_wake_times wake_time_std) 0.3 s1
      in result s2)"

definition detect_delayed_sleep :: "disorder_patterns \<Rightarrow> feature_table \<Rightarrow> risk" where
  "detect_delayed_sleep p df =
     (let late_bedtimes =
            length (filter (\<lambda>r. hour (sleep_start r) \<ge> late_bedtime (delayed_sleep p)) df);
          late_wakes =
            length (filter (\<lambda>r. hour (sleep_end r) \<ge> late_wake (delayed_sleep p)) df);
          s1 = fire (real late_bedtimes \<ge> real (length df) * 0.4)
                 0.4 (Late_bedtime_pattern late_bedtimes) 0.3 no_risk;
          s2 = fire (real late_wakes \<ge> real (length df) * 0.4)
                 0.4 (Late_wake_time_pattern late_wakes) 0.3 s1
      in result s2)"

text \<open>
  \<^verbatim>\<open>analyze_sleep_patterns\<close> builds a dictionary; \<^verbatim>\<open>risk_levels\<close> is a dictionary
  too, kept here as an association list in insertion order.
\<close>

record results =
  detected_disorders :: "string list"
  risk_levels :: "(string \<times> risk) list"
  recommendations :: "string list"

definition generate_recommendations :: "string list \<Rightarrow> string list" where
  "generate_recommendations detected =
     (if ''Insomnia'' \<in> set detected
      then [''Maintain a consistent sleep schedule'',
            ''Create a relaxing bedtime routine'',
            ''Avoid screens 1-2 hours before bed'',
            ''Consider consulting a sleep specialist'']
      else []) @
     (if ''Irregular Sleep-Wake Rhythm'' \<in> set detected
      then [''Set fixed wake-up and bedtime hours'',
            ''Expose yourself to natural light during the day'',
            ''Avoid long naps, especially in the late afternoon'',
            ''Create a structured daily routine'']
      else []) @
     (if ''Delayed Sleep Phase'' \<in> set detected
      then [''Gradually adjust bedtime earlier by 15 minutes each week'',
            ''Use bright light therapy in the morning'',
            ''Avoid bright lights in the evening'',
            ''Maintain a consistent wake time, even on weekends'']
      else [])"

text \<open>The body of each \<^verbatim>\<open>if risk['risk_level'] > 0\<close> of \<^verbatim>\<open>analyze_sleep_patterns\<close>.\<close>

definition report :: "string \<Rightarrow> risk \<Rightarrow> results \<Rightarrow> results" where
  "report name r res =
     (if risk_level r > 0
      then res\<lparr>detected_disorders := detected_disorders res @ [name],
               risk_levels := risk_levels res @ [(name, r)]\<rparr>
      else res)"

definition analyze_sleep_patterns :: "disorder_patterns \<Rightarrow> feature_table \<Rightarrow> results" where
  "analyze_sleep_patterns p df =
     (let res0 = \<lparr>detected_disorders = [], risk_levels = [], recommendations = []\<rparr>;
          res1 = report ''Insomnia'' (detect_insomnia p df) res0;
          res2 = report ''Irregular Sleep-Wake Rhythm'' (detect_irregular_rhythm p df) res1;
          res3 = report ''Delayed Sleep Phase'' (detect_delayed_sleep p df) res2
      in res3\<lparr>recommendations := generate_recommendations (detected_disorders res3)\<rparr>)"

section \<open>Example nights\<close>

text \<open>
  Two processed rows of the night of 1970-01-01, a Thursday, both going to bed at 23:00:
  one waking at 04:00 after five hours, one waking at 07:00 after eight.
\<close>

definition short_night :: feature_row where
  "short_night =
     \<lparr>date = 0, sleep_start = 23 * ns_per_hour, sleep_end = 28 * ns_per_hour,
      quality = 80, duration = 5, latency = 60, day_of_week = ''Thursday'',
      rolling_avg_duration = Some 5, rolling_avg_quality = Some 80\<rparr>"

definition full_night :: feature_row where
  "full_night =
     \<lparr>date = 0, sleep_start = 23 * ns_per_hour, sleep_end = 31 * ns_per_hour,
      quality = 85, duration = 8, latency = 60, day_of_week = ''Thursday'',
      rolling_avg_duration = Some 8, rolling_avg_quality = Some 85\<rparr>"

text \<open>The sample file that \<^verbatim>\<open>main.py\<close> offers for download, as \<^verbatim>\<open>pd.read_csv\<close> reads it.\<close>

definition sample_data :: dataframe where
  "sample_data =
     \<lparr>columns = [''date'', ''sleep_start'', ''sleep_end'', ''quality''],
      rows = [\<lparr>date_cell = Text ''2023-01-01'',
               sleep_start_cell = Text ''2023-01-01 23:00:00'',
               sleep_end_cell = Text ''2023-01-02 07:00:00'',
               quality_cell = 85\<rparr>,
              \<lparr>date_cell = Text ''2023-01-02'',
               sleep_start_cell = Text ''2023-01-02 23:30:00'',
               sleep_end_cell = Text ''2023-01-03 07:30:00'',
               quality_cell = 78\<rparr>]\<rparr>"

text \<open>The same frame after validation, and the table that processing it gives.\<close>

definition sample_parsed :: dataframe where
  "sample_parsed =
     \<lparr>columns = [''date'', ''sleep_start'', ''sleep_end'', ''quality''],
      rows = [\<lparr>date_cell = Stamp 1672531200000000000,
               sleep_start_cell = Stamp 1672614000000000000,
               sleep_end_cell = Stamp 1672642800000000000,
               quality_cell = 85\<rparr>,
              \<lparr>date_cell = Stamp 1672617600000000000,
               sleep_start_cell = Stamp 1672702200000000000,
               sleep_end_cell = Stamp 1672731000000000000,
               quality_cell = 78\<rparr>]\<rparr>"

definition sample_table :: feature_table where
  "sample_table =
     [\<lparr>date = 1672531200000000000, sleep_start = 1672614000000000000,
       sleep_end = 1672642800000000000, quality = 85, duration = 8,
       latency = 60, day_of_week = ''Sunday'',
       rolling_avg_duration = Some 8, rolling_avg_quality = Some 85\<rparr>,
      \<lparr>date = 1672617600000000000, sleep_start = 1672702200000000000,
       sleep_end = 1672731000000000000, quality = 78, duration = 8,
       latency = 90, day_of_week = ''Monday'',
       rolling_avg_duration = Some 8, rolling_avg_quality = Some (163 / 2)\<rparr>]"

text \<open>
  Libraries to run the analysis with. In both the statistics answer NaN whatever the
  sample; on values that are all NaN, \<^verbatim>\<open>idxmin\<close> answers NaN in the first and
  raises in the second.
\<close>

definition nan_libraries :: libraries where
  "nan_libraries = \<lparr>skew = (\<lambda>xs. Inr None), kurtosis = (\<lambda>xs. Inr None),
                    normaltest = (\<lambda>xs. Inr None), idx_all_nan = None\<rparr>"

definition strict_libraries :: libraries where
  "strict_libraries = \<lparr>skew = (\<lambda>xs. Inr None), kurtosis = (\<lambda>xs. Inr None),
                       normaltest = (\<lambda>xs. Inr None),
                       idx_all_nan = Some (ValueError ''Encountered all NA values'')\<rparr>"

section \<open>The trailing window, in the words of the specification\<close>

text \<open>
  The specification describes the rolling averages without reference to the one-pass
  computation: the value at row \<open>i\<close> is the plain arithmetic mean of the values at rows
  \<open>max(0, i - 6)\<close> through \<open>i\<close>.
\<close>

definition trailing_window :: "real list \<Rightarrow> nat \<Rightarrow> real list" where
  "trailing_window xs i = map (\<lambda>k. xs ! k) [(if i < 6 then 0 else i - 6) ..< i + 1]"

definition arithmetic_mean :: "real list \<Rightarrow> real" where
  "arithmetic_mean ys = sum_list ys / real (length ys)"

section \<open>Bounds of the scores\<close>

lemma fire_risk_level:
  "risk_level (fire c dr ev dc s) = risk_level s + (if c then dr else 0)"
  by (simp add: fire_def)

lemma fire_confidence:
  "confidence (fire c dr ev dc s) = confidence s + (if c then dc else 0)"
  by (simp add: fire_def)

lemma fire_evidence:
  "evidence (fire c dr ev dc s) = evidence s @ (if c then [ev] else [])"
  by (simp add: fire_def)

lemma result_simps:
  "risk_level (result s) = min (risk_level s) 1"
  "confidence (result s) = confidence s"
  "evidence (result s) = evidence s"
  by (simp_all add: result_def)

lemma no_risk_simps:
  "risk_level no_risk = 0" "confidence no_risk = 0" "evidence no_risk = []"
  by (simp_all add: no_risk_def)

lemmas score_simps =
  fire_risk_level fire_confidence fire_evidence result_simps no_risk_simps

text \<open>
  C1. Each of the three detectors returns a risk level between 0 and 1 and a confidence
  between 0 and 1, for every feature table and whichever of its rules fire.
\<close>

theorem detector_scores_in_unit_interval:
  "0 \<le> risk_level (detect_insomnia p df) \<and> risk_level (detect_insomnia p df) \<le> 1 \<and>
   0 \<le> confidence (detect_insomnia p df) \<and> confidence (detect_insomnia p df) \<le> 1 \<and>
   0 \<le> risk_level (detect_irregular_rhythm p df) \<and>
   risk_level (detect_irregular_rhythm p df) \<le> 1 \<and>
   0 \<le> confidence (detect_irregular_rhythm p df) \<and>
   confidence (detect_irregular_rhythm p df) \<le> 1 \<and>
   0 \<le> risk_level (detect_delayed_sleep p df) \<and>
   risk_level (detect_delayed_sleep p df) \<le> 1 \<and>
   0 \<le> confidence (detect_delayed_sleep p df) \<and>
   confidence (detect_delayed_sleep p df) \<le> 1"
  by (simp add: detect_insomnia_def detect_irregular_rhythm_def detect_delayed_sleep_def
        Let_def score_simps)

section \<open>The rules of the detectors\<close>

lemma hour_range: "0 \<le> hour t \<and> hour t < 24"
  by (simp add: hour_def)

text \<open>
  C4. On a table of N rows the insomnia detector adds 0.4 to the risk and 0.3 to the
  confidence exactly when the rows with a duration under 6.0 hours number at least
  0.3 N, and 0.3 to each exactly when the rows with a quality under 70 number at
  least 0.3 N. For 10 rows of which exactly 4 have a duration under 6.0 hours and all
  have a quality of at least 70, insomnia is detected with risk 0.4 and confidence 0.3.
\<close>

theorem insomnia_rules:
  "risk_level (detect_insomnia SleepDisorderDetector_init df) =
     (if real (length (filter (\<lambda>r. duration r < 6.0) df)) \<ge> 0.3 * real (length df)
      then 0.4 else 0) +
     (if real (length (filter (\<lambda>r. quality r < 70) df)) \<ge> 0.3 * real (length df)
      then 0.3 else 0) \<and>
   confidence (detect_insomnia SleepDisorderDetector_init df) =
     (if real (length (filter (\<lambda>r. duration r < 6.0) df)) \<ge> 0.3 * real (length df)
      then 0.3 else 0) +
     (if real (length (filter (\<lambda>r. quality r < 70) df)) \<ge> 0.3 * real (length df)
      then 0.3 else 0) \<and>
   (length df = 10 \<and> length (filter (\<lambda>r. duration r < 6.0) df) = 4 \<and>
    (\<forall>r \<in> set df. quality r \<ge> 70) \<longrightarrow>
      risk_level (detect_insomnia SleepDisorderDetector_init df) = 0.4 \<and>
      confidence (detect_insomnia SleepDisorderDetector_init df) = 0.3 \<and>
      ''Insomnia'' \<in> set (detected_disorders
                             (analyze_sleep_patterns SleepDisorderDetector_init df)))"
proof -
  let ?d = "detect_insomnia SleepDisorderDetector_init df"
  let ?short = "real (length (filter (\<lambda>r. duration r < 6.0) df)) \<ge> 0.3 * real (length df)"
  let ?low = "real (length (filter (\<lambda>r. quality r < 70) df)) \<ge> 0.3 * real (length df)"
  have r: "risk_level ?d = (if ?short then 0.4 else 0) + (if ?low then 0.3 else 0)"
    by (simp add: detect_insomnia_def SleepDisorderDetector_init_def Let_def score_simps
          mult.commute)
  have c: "confidence ?d = (if ?short then 0.3 else 0) + (if ?low then 0.3 else 0)"
    by (simp add: detect_insomnia_def SleepDisorderDetector_init_def Let_def score_simps
          mult.commute)
  have s: "risk_level ?d = 0.4 \<and> confidence ?d = 0.3 \<and>
      ''Insomnia'' \<in> set (detected_disorders
                             (analyze_sleep_patterns SleepDisorderDetector_init df))"
    if h: "length df = 10 \<and> length (filter (\<lambda>r. duration r < 6.0) df) = 4 \<and>
           (\<forall>r \<in> set df. quality r \<ge> 70)"
  proof -
    have "filter (\<lambda>r. quality r < 70) df = []"
      using h by (auto simp: filter_empty_conv)
    then have low: "\<not> ?low" using h by simp
    have short: "?short" using h by simp
    have 1: "risk_level ?d = 0.4" using r low short by simp
    have 2: "confidence ?d = 0.3" using c low short by simp
    have "risk_level ?d > 0" using 1 by simp
    then have 3: "''Insomnia'' \<in> set (detected_disorders
                             (analyze_sleep_patterns SleepDisorderDetector_init df))"
      by (simp add: analyze_sleep_patterns_def Let_def report_def)
    from 1 2 3 show ?thesis by simp
  qed
  from r c s show ?thesis by blast
qed

theorem insomnia_rules_witness:
  "length (replicate 4 short_night @ replicate 6 full_night) = 10 \<and>
   length (filter (\<lambda>r. duration r < 6.0) (replicate 4 short_night @ replicate 6 full_night)) = 4 \<and>
   list_all (\<lambda>r. quality r \<ge> 70) (replicate 4 short_night @ replicate 6 full_night) \<and>
   risk_level (detect_insomnia SleepDisorderDetector_init
                 (replicate 4 short_night @ replicate 6 full_night)) = 0.4 \<and>
   confidence (detect_insomnia SleepDisorderDetector_init
                 (replicate 4 short_night @ replicate 6 full_night)) = 0.3 \<and>
   ''Insomnia'' \<in> set (detected_disorders
      (analyze_sleep_patterns SleepDisorderDetector_init
         (replicate 4 short_night @ replicate 6 full_night)))"
  using insomnia_rules [of "replicate 4 short_night @ replicate 6 full_night"]
  by (simp add: short_night_def full_night_def list_all_iff)

text \<open>
  C9. The irregular-rhythm detector adds 0.5 to the risk and 0.4 to the confidence
  exactly when the standard deviation of the hours of going to sleep exceeds 1.5, and
  0.3 to each exactly when that of the hours of waking exceeds 1.5. Whatever value
  \<^verbatim>\<open>time_variance\<close> is set to, the detector returns the same.
\<close>

theorem irregular_rhythm_rules:
  "risk_level (detect_irregular_rhythm SleepDisorderDetector_init df) =
     (if float_gt (std (map (\<lambda>r. real_of_int (hour (sleep_start r))) df)) 1.5
      then 0.5 else 0) +
     (if float_gt (std (map (\<lambda>r. real_of_int (hour (sleep_end r))) df)) 1.5
      then 0.3 else 0) \<and>
   confidence (detect_irregular_rhythm SleepDisorderDetector_init df) =
     (if float_gt (std (map (\<lambda>r. real_of_int (hour (sleep_start r))) df)) 1.5
      then 0.4 else 0) +
     (if float_gt (std (map (\<lambda>r. real_of_int (hour (sleep_end r))) df)) 1.5
      then 0.3 else 0) \<and>
   detect_irregular_rhythm
     (p\<lparr>irregular_rhythm := (irregular_rhythm p)\<lparr>time_variance := v\<rparr>\<rparr>) df =
   detect_irregular_rhythm p df"
  by (simp add: detect_irregular_rhythm_def SleepDisorderDetector_init_def Let_def score_simps)

text \<open>
  C2, as stated, fails on the table without rows: there the late-bedtime rule of the
  delayed-sleep detector fires, since its count 0 is at least 0.4 times 0 rows, and it
  adds its 0.4 of risk and 0.3 of confidence.
\<close>

theorem late_bedtime_rule_fires_on_empty_table:
  "evidence (detect_delayed_sleep SleepDisorderDetector_init []) =
     [Late_bedtime_pattern 0, Late_wake_time_pattern 0] \<and>
   risk_level (detect_delayed_sleep SleepDisorderDetector_init []) = 0.8 \<and>
   confidence (detect_delayed_sleep SleepDisorderDetector_init []) = 0.6"
  by (simp add: detect_delayed_sleep_def Let_def score_simps)

text \<open>
  C2, amended. On every table with at least one row no row has an hour of going to
  sleep of 24 or more, the late-bedtime rule adds nothing, and the risk, the confidence
  and the evidence of the delayed-sleep detector are those of the late-wake rule alone.
\<close>

theorem late_bedtime_rule_dead_on_nonempty:
  assumes "df \<noteq> []"
  shows "filter (\<lambda>r. hour (sleep_start r) \<ge> 24) df = [] \<and>
   risk_level (detect_delayed_sleep SleepDisorderDetector_init df) =
     (if real (length (filter (\<lambda>r. hour (sleep_end r) \<ge> 9) df)) \<ge> 0.4 * real (length df)
      then 0.4 else 0) \<and>
   confidence (detect_delayed_sleep SleepDisorderDetector_init df) =
     (if real (length (filter (\<lambda>r. hour (sleep_end r) \<ge> 9) df)) \<ge> 0.4 * real (length df)
      then 0.3 else 0) \<and>
   evidence (detect_delayed_sleep SleepDisorderDetector_init df) =
     (if real (length (filter (\<lambda>r. hour (sleep_end r) \<ge> 9) df)) \<ge> 0.4 * real (length df)
      then [Late_wake_time_pattern (length (filter (\<lambda>r. hour (sleep_end r) \<ge> 9) df))]
      else [])"
proof -
  have e: "filter (\<lambda>r. hour (sleep_start r) \<ge> 24) df = []"
    using hour_range by (auto simp: filter_empty_conv not_le)
  have n: "0 < length df" using assms by simp
  show ?thesis
    using e n
    by (simp add: detect_delayed_sleep_def SleepDisorderDetector_init_def Let_def score_simps
          mult.commute)
qed

theorem late_bedtime_rule_dead_on_nonempty_witness:
  "[short_night, full_night, full_night] \<noteq> [] \<and>
   risk_level (detect_delayed_sleep SleepDisorderDetector_init [short_night, full_night, full_night]) = 0 \<and>
   confidence (detect_delayed_sleep SleepDisorderDetector_init [short_night, full_night, full_night]) = 0 \<and>
   evidence (detect_delayed_sleep SleepDisorderDetector_init [short_night, full_night, full_night]) = []"
  using late_bedtime_rule_dead_on_nonempty [of "[short_night, full_night, full_night]"]
  by (simp add: full_night_def short_night_def hour_def ns_per_hour_def ns_per_second_def)

text \<open>
  C3, as stated, fails on the table without rows: no row has a short duration or a low
  quality, and still both rules of the insomnia detector fire and add their risk and
  confidence, since the count 0 is at least 0.3 times 0 rows.
\<close>

theorem count_rules_fire_on_empty_table:
  "filter (\<lambda>r. duration r < 6.0) [] = [] \<and> filter (\<lambda>r. quality r < 70) [] = [] \<and>
   evidence (detect_insomnia SleepDisorderDetector_init []) =
     [Short_sleep_duration 0, Poor_sleep_quality 0] \<and>
   risk_level (detect_insomnia SleepDisorderDetector_init []) = 0.7 \<and>
   confidence (detect_insomnia SleepDisorderDetector_init []) = 0.6"
  by (simp add: detect_insomnia_def Let_def score_simps)

text \<open>
  C3, amended. The detectors are total functions of the feature table, so no table makes
  them fail. On every table with at least one row, a counting rule that no row matches
  adds neither risk nor confidence nor evidence: the insomnia detector is left with the
  contribution of its other rule, and the delayed-sleep detector, whose late-bedtime rule
  no row ever matches, returns no risk at all when no row matches the late-wake rule.
  With fewer than two rows, empty table included, the standard deviations are undefined
  and the irregular-rhythm detector returns no risk.
\<close>

theorem rule_without_match_adds_nothing:
  "(df \<noteq> [] \<and> filter (\<lambda>r. duration r < 6.0) df = [] \<longrightarrow>
      risk_level (detect_insomnia SleepDisorderDetector_init df) =
        (if real (length (filter (\<lambda>r. quality r < 70) df)) \<ge> 0.3 * real (length df)
         then 0.3 else 0) \<and>
      confidence (detect_insomnia SleepDisorderDetector_init df) =
        (if real (length (filter (\<lambda>r. quality r < 70) df)) \<ge> 0.3 * real (length df)
         then 0.3 else 0) \<and>
      Short_sleep_duration 0 \<notin> set (evidence (detect_insomnia SleepDisorderDetector_init df))) \<and>
   (df \<noteq> [] \<and> filter (\<lambda>r. quality r < 70) df = [] \<longrightarrow>
      risk_level (detect_insomnia SleepDisorderDetector_init df) =
        (if real (length (filter (\<lambda>r. duration r < 6.0) df)) \<ge> 0.3 * real (length df)
         then 0.4 else 0) \<and>
      confidence (detect_insomnia SleepDisorderDetector_init df) =
        (if real (length (filter (\<lambda>r. duration r < 6.0) df)) \<ge> 0.3 * real (length df)
         then 0.3 else 0) \<and>
      Poor_sleep_quality 0 \<notin> set (evidence (detect_insomnia SleepDisorderDetector_init df))) \<and>
   (df \<noteq> [] \<and> filter (\<lambda>r. hour (sleep_end r) \<ge> 9) df = [] \<longrightarrow>
      detect_delayed_sleep SleepDisorderDetector_init df = no_risk) \<and>
   (length df < 2 \<longrightarrow> detect_irregular_rhythm SleepDisorderDetector_init df = no_risk)"
proof -
  have e: "filter (\<lambda>r. hour (sleep_start r) \<ge> 24) df = []"
    using hour_range by (auto simp: filter_empty_conv not_le)
  have a: "df \<noteq> [] \<and> filter (\<lambda>r. duration r < 6.0) df = [] \<longrightarrow>
      risk_level (detect_insomnia SleepDisorderDetector_init df) =
        (if real (length (filter (\<lambda>r. quality r < 70) df)) \<ge> 0.3 * real (length df)
         then 0.3 else 0) \<and>
      confidence (detect_insomnia SleepDisorderDetector_init df) =
        (if real (length (filter (\<lambda>r. quality r < 70) df)) \<ge> 0.3 * real (length df)
         then 0.3 else 0) \<and>
      Short_sleep_duration 0 \<notin> set (evidence (detect_insomnia SleepDisorderDetector_init df))"
    by (simp add: detect_insomnia_def SleepDisorderDetector_init_def Let_def score_simps
          mult.commute)
  have b: "df \<noteq> [] \<and> filter (\<lambda>r. quality r < 70) df = [] \<longrightarrow>
      risk_level (detect_insomnia SleepDisorderDetector_init df) =
        (if real (length (filter (\<lambda>r. duration r < 6.0) df)) \<ge> 0.3 * real (length df)
         then 0.4 else 0) \<and>
      confidence (detect_insomnia SleepDisorderDetector_init df) =
        (if real (length (filter (\<lambda>r. duration r < 6.0) df)) \<ge> 0.3 * real (length df)
         then 0.3 else 0) \<and>
      Poor_sleep_quality 0 \<notin> set (evidence (detect_insomnia SleepDisorderDetector_init df))"
    by (simp add: detect_insomnia_def SleepDisorderDetector_init_def Let_def score_simps
          mult.commute)
  have c: "df \<noteq> [] \<and> filter (\<lambda>r. hour (sleep_end r) \<ge> 9) df = [] \<longrightarrow>
      detect_delayed_sleep SleepDisorderDetector_init df = no_risk"
    using e
    by (simp add: detect_delayed_sleep_def SleepDisorderDetector_init_def Let_def
          fire_def result_def no_risk_def)
  have d: "length df < 2 \<longrightarrow> detect_irregular_rhythm SleepDisorderDetector_init df = no_risk"
    by (simp add: detect_irregular_rhythm_def Let_def std_def float_gt_def
          fire_def result_def no_risk_def)
  from a b c d show ?thesis by blast
qed

theorem rule_without_match_adds_nothing_witness:
  "[full_night] \<noteq> [] \<and> filter (\<lambda>r. duration r < 6.0) [full_night] = [] \<and>
   filter (\<lambda>r. quality r < 70) [full_night] = [] \<and>
   filter (\<lambda>r. hour (sleep_end r) \<ge> 9) [full_night] = [] \<and>
   length [full_night] < 2 \<and>
   risk_level (detect_insomnia SleepDisorderDetector_init [full_night]) = 0 \<and>
   confidence (detect_insomnia SleepDisorderDetector_init [full_night]) = 0 \<and>
   detect_delayed_sleep SleepDisorderDetector_init [full_night] = no_risk \<and>
   detect_irregular_rhythm SleepDisorderDetector_init [full_night] = no_risk"
  using rule_without_match_adds_nothing [of "[full_night]"]
  by (simp add: full_night_def hour_def ns_per_hour_def ns_per_second_def)

section \<open>The rolling mean\<close>

lemma roll_mean_length: "length (roll_mean w m xs i s n) = length xs - i"
proof (induction "length xs - i" arbitrary: i s n)
  case 0
  then show ?case by (simp add: roll_mean.simps)
next
  case (Suc k)
  then have "i < length xs" by simp
  moreover have "k = length xs - (i + 1)" using Suc by simp
  ultimately show ?case
    using Suc.hyps(1) [of "i + 1"]
    by (subst roll_mean.simps) (simp add: Let_def)
qed

lemma window_step:
  fixes xs :: "real list"
  assumes "0 < w" "i < length xs"
  shows "(if w \<le> i then sum_list (map ((!) xs) [i - w ..< i]) - xs ! (i - w)
          else sum_list (map ((!) xs) [i - w ..< i])) + xs ! i =
         sum_list (map ((!) xs) [Suc i - w ..< Suc i])"
proof (cases "w \<le> i")
  case True
  have lt: "i - w < i" using True assms by simp
  have a: "[i - w ..< i] = (i - w) # [Suc (i - w) ..< i]"
    using lt by (simp add: upt_conv_Cons)
  have b: "Suc i - w = Suc (i - w)" using True by simp
  have c: "[Suc (i - w) ..< Suc i] = [Suc (i - w) ..< i] @ [i]"
    using lt by simp
  show ?thesis using True by (simp only: a b c) simp
next
  case False
  then show ?thesis by simp
qed

lemma count_step:
  assumes "0 < w"
  shows "(if w \<le> i then min i w - 1 else min i w) + 1 = min (Suc i) w"
  using assms by auto

lemma roll_mean_unfold:
  assumes "i < length xs"
  shows "roll_mean w minp xs i s n =
     (if minp \<le> (if w \<le> i then n - 1 else n) + 1 \<and> 0 < (if w \<le> i then n - 1 else n) + 1
      then Some (((if w \<le> i then s - xs ! (i - w) else s) + xs ! i) /
                 real ((if w \<le> i then n - 1 else n) + 1))
      else None)
     # roll_mean w minp xs (Suc i) ((if w \<le> i then s - xs ! (i - w) else s) + xs ! i)
         ((if w \<le> i then n - 1 else n) + 1)"
  using assms by (subst roll_mean.simps) (simp add: Let_def)

lemma roll_mean_nth:
  assumes "0 < w"
  shows "i \<le> j \<Longrightarrow> j < length xs \<Longrightarrow> s = sum_list (map ((!) xs) [i - w ..< i]) \<Longrightarrow>
         n = min i w \<Longrightarrow>
         roll_mean w minp xs i s n ! (j - i) =
           (if minp \<le> min (Suc j) w
            then Some (sum_list (map ((!) xs) [Suc j - w ..< Suc j]) / real (min (Suc j) w))
            else None)"
proof (induction "j - i" arbitrary: i s n)
  case 0
  then have ij: "i = j" by simp
  have lt: "i < length xs" using 0 by simp
  let ?s = "(if w \<le> i then s - xs ! (i - w) else s) + xs ! i"
  let ?n = "(if w \<le> i then n - 1 else n) + 1"
  have s': "?s = sum_list (map ((!) xs) [Suc i - w ..< Suc i])"
    unfolding 0(4) by (rule window_step [OF assms lt])
  have n': "?n = min (Suc i) w"
    unfolding 0(5) by (rule count_step [OF assms])
  have pos: "0 < min (Suc i) w" using assms by simp
  have "roll_mean w minp xs i s n ! (j - i) =
          (if minp \<le> ?n \<and> 0 < ?n then Some (?s / real ?n) else None)"
    by (subst roll_mean_unfold [OF lt]) (simp only: ij diff_self_eq_0 nth_Cons_0)
  also have "\<dots> = (if minp \<le> min (Suc i) w
            then Some (sum_list (map ((!) xs) [Suc i - w ..< Suc i]) / real (min (Suc i) w))
            else None)"
    by (simp only: s' n' pos simp_thms)
  finally show ?case by (simp only: ij)
next
  case (Suc k)
  then have lt: "i < length xs" and le: "Suc i \<le> j" and k: "k = j - Suc i" by simp_all
  have idx: "j - i = Suc (j - Suc i)" using le by simp
  let ?s = "(if w \<le> i then s - xs ! (i - w) else s) + xs ! i"
  let ?n = "(if w \<le> i then n - 1 else n) + 1"
  have s': "?s = sum_list (map ((!) xs) [Suc i - w ..< Suc i])"
    unfolding Suc.prems(3) by (rule window_step [OF assms lt])
  have n': "?n = min (Suc i) w"
    unfolding Suc.prems(4) by (rule count_step [OF assms])
  have "roll_mean w minp xs i s n ! (j - i) = roll_mean w minp xs (Suc i) ?s ?n ! (j - Suc i)"
    by (subst roll_mean_unfold [OF lt]) (simp only: idx nth_Cons_Suc)
  also have "\<dots> = (if minp \<le> min (Suc j) w
            then Some (sum_list (map ((!) xs) [Suc j - w ..< Suc j]) / real (min (Suc j) w))
            else None)"
    by (rule Suc.hyps(1) [OF k le Suc.prems(2) s' n'])
  finally show ?case .
qed

lemma rolling_mean_nth:
  assumes "i < length xs"
  shows "rolling_mean 7 1 xs ! i =
           Some (sum_list (map ((!) xs) [i - 6 ..< Suc i]) / real (length [i - 6 ..< Suc i]))"
proof -
  have "roll_mean 7 1 xs 0 0 0 ! (i - 0) =
          (if 1 \<le> min (Suc i) 7
            then Some (sum_list (map ((!) xs) [Suc i - 7 ..< Suc i]) / real (min (Suc i) 7))
            else None)"
    by (rule roll_mean_nth) (use assms in simp_all)
  moreover have "min (Suc i) 7 = length [i - 6 ..< Suc i]" by auto
  moreover have "Suc i - 7 = i - 6" by simp
  moreover have "1 \<le> length [i - 6 ..< Suc i]" by auto
  ultimately show ?thesis
    by (simp only: rolling_mean_def minus_nat.diff_0 if_True)
qed

lemma rolling_mean_length: "length (rolling_mean w m xs) = length xs"
  by (simp add: rolling_mean_def roll_mean_length)

section \<open>Parsing and processing\<close>

lemmas parse_defs = parse_datetime_def parse_date_def parse_time_def number_def digit_def
  days_in_month_def is_leap_def days_from_civil_def ns_per_day_def ns_per_hour_def
  ns_per_second_def

lemma parse_sample:
  "parse_datetime ''2023-01-01'' = Some 1672531200000000000"
  "parse_datetime ''2023-01-01 23:00:00'' = Some 1672614000000000000"
  "parse_datetime ''2023-01-02 07:00:00'' = Some 1672642800000000000"
  "parse_datetime ''2023-01-02'' = Some 1672617600000000000"
  "parse_datetime ''2023-01-02 23:30:00'' = Some 1672702200000000000"
  "parse_datetime ''2023-01-03 07:30:00'' = Some 1672731000000000000"
  by (simp_all add: parse_defs Let_def)

lemma validate_sample: "validate_data sample_data = (Inr True, sample_parsed)"
  by (simp add: validate_data_def sample_data_def sample_parsed_def required_columns_def
        to_datetime_def parse_sample assign_date_def assign_sleep_start_def
        assign_sleep_end_def Let_def)

lemma rolling_two: "rolling_mean 7 (Suc 0) [a, b] = [Some a, Some ((a + b) / 2)]"
  by (simp add: rolling_mean_def roll_mean.simps Let_def)

lemma process_sample: "process_sleep_data sample_data = Inr sample_table"
  by (simp add: process_sleep_data_def sample_data_def sample_table_def
        to_datetime_def parse_sample Let_def rolling_two total_seconds_def normalize_def
        day_name_def ns_per_day_def ns_per_hour_def ns_per_second_def)

lemma process_sample_parsed: "process_sleep_data sample_parsed = Inr sample_table"
  by (simp add: process_sleep_data_def sample_parsed_def sample_table_def
        to_datetime_def Let_def rolling_two total_seconds_def normalize_def
        day_name_def ns_per_day_def ns_per_hour_def ns_per_second_def)

lemma those_map_Some: "those xs = Some ys \<Longrightarrow> xs = map Some ys"
  by (induction xs arbitrary: ys) (auto split: option.splits)

lemma those_Some_map: "those (map Some ys) = Some ys"
  by (induction ys) auto

lemma to_datetime_Inr: "to_datetime cs = Inr ts \<Longrightarrow> map to_datetime_cell cs = map Some ts"
  by (auto simp: to_datetime_def those_map_Some split: option.splits)

lemma to_datetime_length: "to_datetime cs = Inr ts \<Longrightarrow> length ts = length cs"
  using to_datetime_Inr [of cs ts] by (metis length_map)

lemma to_datetime_nth:
  "to_datetime cs = Inr ts \<Longrightarrow> i < length cs \<Longrightarrow> to_datetime_cell (cs ! i) = Some (ts ! i)"
  using to_datetime_Inr [of cs ts] to_datetime_length [of cs ts]
  by (metis nth_map)

lemma to_datetime_Stamp: "to_datetime (map Stamp ts) = Inr ts"
proof -
  have "map to_datetime_cell (map Stamp ts) = map Some ts" by simp
  then show ?thesis by (simp only: to_datetime_def those_Some_map option.case)
qed

lemma process_sleep_data_Inr:
  assumes "process_sleep_data df = Inr tbl"
  shows "\<exists>dates starts ends.
     to_datetime (map date_cell (rows df)) = Inr dates \<and>
     to_datetime (map sleep_start_cell (rows df)) = Inr starts \<and>
     to_datetime (map sleep_end_cell (rows df)) = Inr ends \<and>
     tbl = map (\<lambda>i. \<lparr>date = dates ! i, sleep_start = starts ! i,
                      sleep_end = ends ! i, quality = map quality_cell (rows df) ! i,
                      duration = map2 (\<lambda>e s. total_seconds (e - s) / 3600) ends starts ! i,
                      latency = map2 (\<lambda>s b. total_seconds (s - b) / 60) starts
                                  (map (\<lambda>d. normalize d + 22 * ns_per_hour) dates) ! i,
                      day_of_week = map day_name dates ! i,
                      rolling_avg_duration =
                        rolling_mean 7 1
                          (map2 (\<lambda>e s. total_seconds (e - s) / 3600) ends starts) ! i,
                      rolling_avg_quality =
                        rolling_mean 7 1 (map quality_cell (rows df)) ! i\<rparr>)
               [0 ..< length (rows df)]"
  using assms
  by (auto simp: process_sleep_data_def Let_def split: if_splits sum.splits)

lemma trailing_window_eq:
  "trailing_window xs i = map ((!) xs) [i - 6 ..< Suc i]"
  by (simp add: trailing_window_def del: upt_Suc)

lemma rolling_mean_window:
  assumes "i < length xs"
  shows "rolling_mean 7 1 xs ! i = Some (arithmetic_mean (trailing_window xs i))"
  by (simp only: rolling_mean_nth [OF assms] arithmetic_mean_def trailing_window_eq length_map)

text \<open>
  C8. In every processed table and at every row \<open>i\<close>, the rolling average of the duration,
  and likewise that of the quality, is the plain arithmetic mean of the values at rows
  \<open>max(0, i - 6)\<close> through \<open>i\<close> in table order: a trailing window of at most 7 rows,
  shorter at the start of the table, and of exactly one row at row 0.
\<close>

theorem rolling_averages:
  assumes "process_sleep_data df = Inr tbl" and "i < length tbl"
  shows "rolling_avg_duration (tbl ! i) =
           Some (arithmetic_mean (trailing_window (map duration tbl) i)) \<and>
         rolling_avg_quality (tbl ! i) =
           Some (arithmetic_mean (trailing_window (map quality tbl) i)) \<and>
         length (trailing_window (map duration tbl) i) = min (i + 1) 7 \<and>
         length (trailing_window (map quality tbl) i) = min (i + 1) 7 \<and>
         trailing_window (map duration tbl) 0 = [duration (tbl ! 0)] \<and>
         trailing_window (map quality tbl) 0 = [quality (tbl ! 0)]"
proof -
  obtain dates starts ends where
    d: "to_datetime (map date_cell (rows df)) = Inr dates" and
    s: "to_datetime (map sleep_start_cell (rows df)) = Inr starts" and
    e: "to_datetime (map sleep_end_cell (rows df)) = Inr ends" and
    t: "tbl = map (\<lambda>i. \<lparr>date = dates ! i, sleep_start = starts ! i,
                      sleep_end = ends ! i, quality = map quality_cell (rows df) ! i,
                      duration = map2 (\<lambda>e s. total_seconds (e - s) / 3600) ends starts ! i,
                      latency = map2 (\<lambda>s b. total_seconds (s - b) / 60) starts
                                  (map (\<lambda>d. normalize d + 22 * ns_per_hour) dates) ! i,
                      day_of_week = map day_name dates ! i,
                      rolling_avg_duration =
                        rolling_mean 7 1
                          (map2 (\<lambda>e s. total_seconds (e - s) / 3600) ends starts) ! i,
                      rolling_avg_quality =
                        rolling_mean 7 1 (map quality_cell (rows df)) ! i\<rparr>)
               [0 ..< length (rows df)]"
    using process_sleep_data_Inr [OF assms(1)] by blast
  let ?n = "length (rows df)"
  let ?ds = "map2 (\<lambda>e s. total_seconds (e - s) / 3600) ends starts"
  let ?qs = "map quality_cell (rows df)"
  have n: "length tbl = ?n" by (simp add: t)
  have ls: "length starts = ?n" using to_datetime_length [OF s] by simp
  have le: "length ends = ?n" using to_datetime_length [OF e] by simp
  have lds: "length ?ds = ?n" by (simp add: ls le)
  have i: "i < ?n" using assms(2) n by simp
  have ds: "map duration tbl = ?ds"
    by (rule nth_equalityI) (simp_all add: t ls le)
  have qs: "map quality tbl = ?qs"
    by (rule nth_equalityI) (simp_all add: t)
  have rd: "rolling_avg_duration (tbl ! i) = rolling_mean 7 1 ?ds ! i"
    using i by (simp add: t)
  have rq: "rolling_avg_quality (tbl ! i) = rolling_mean 7 1 ?qs ! i"
    using i by (simp add: t)
  have 1: "rolling_avg_duration (tbl ! i) =
           Some (arithmetic_mean (trailing_window (map duration tbl) i))"
    unfolding ds rd by (rule rolling_mean_window) (use i lds in simp)
  have 2: "rolling_avg_quality (tbl ! i) =
           Some (arithmetic_mean (trailing_window (map quality tbl) i))"
    unfolding qs rq by (rule rolling_mean_window) (use i in simp)
  have 3: "length (trailing_window xs i) = min (i + 1) 7" for xs
    by (auto simp: trailing_window_eq)
  have 0: "0 < length tbl" using assms(2) by auto
  have 4: "trailing_window (map f tbl) 0 = [f (tbl ! 0)]" for f
    using 0 by (simp add: trailing_window_def)
  from 1 2 3 4 show ?thesis by blast
qed

theorem rolling_averages_witness:
  "process_sleep_data sample_data = Inr sample_table \<and> 1 < length sample_table \<and>
   rolling_avg_duration (sample_table ! 1) =
     Some (arithmetic_mean (trailing_window (map duration sample_table) 1)) \<and>
   rolling_avg_quality (sample_table ! 1) =
     Some (arithmetic_mean (trailing_window (map quality sample_table) 1)) \<and>
   trailing_window (map quality sample_table) 1 = [85, 78] \<and>
   rolling_avg_quality (sample_table ! 1) = Some (163 / 2)"
proof -
  have n: "1 < length sample_table" by (simp add: sample_table_def)
  have w: "trailing_window (map quality sample_table) 1 = [85, 78]"
    by (simp add: trailing_window_def sample_table_def)
  have v: "rolling_avg_quality (sample_table ! 1) = Some (163 / 2)"
    by (simp add: sample_table_def)
  from rolling_averages [OF process_sample n] process_sample n w v
  show ?thesis by blast
qed

lemma assign_date_cells:
  assumes "length ts = length rs"
  shows "map date_cell (assign_date ts rs) = map Stamp ts"
    and "map sleep_start_cell (assign_date ts rs) = map sleep_start_cell rs"
    and "map sleep_end_cell (assign_date ts rs) = map sleep_end_cell rs"
    and "map quality_cell (assign_date ts rs) = map quality_cell rs"
    and "length (assign_date ts rs) = length rs"
  using assms by (induction ts rs rule: list_induct2) (simp_all add: assign_date_def)

lemma assign_sleep_start_cells:
  assumes "length ts = length rs"
  shows "map date_cell (assign_sleep_start ts rs) = map date_cell rs"
    and "map sleep_start_cell (assign_sleep_start ts rs) = map Stamp ts"
    and "map sleep_end_cell (assign_sleep_start ts rs) = map sleep_end_cell rs"
    and "map quality_cell (assign_sleep_start ts rs) = map quality_cell rs"
    and "length (assign_sleep_start ts rs) = length rs"
  using assms by (induction ts rs rule: list_induct2) (simp_all add: assign_sleep_start_def)

lemma assign_sleep_end_cells:
  assumes "length ts = length rs"
  shows "map date_cell (assign_sleep_end ts rs) = map date_cell rs"
    and "map sleep_start_cell (assign_sleep_end ts rs) = map sleep_start_cell rs"
    and "map sleep_end_cell (assign_sleep_end ts rs) = map Stamp ts"
    and "map quality_cell (assign_sleep_end ts rs) = map quality_cell rs"
    and "length (assign_sleep_end ts rs) = length rs"
  using assms by (induction ts rs rule: list_induct2) (simp_all add: assign_sleep_end_def)

text \<open>The frame a successful validation leaves behind.\<close>

lemma validate_data_True:
  assumes "fst (validate_data df) = Inr True"
  shows "\<exists>dates starts ends.
           to_datetime (map date_cell (rows df)) = Inr dates \<and>
           to_datetime (map sleep_start_cell (rows df)) = Inr starts \<and>
           to_datetime (map sleep_end_cell (rows df)) = Inr ends \<and>
           list_all (\<lambda>col. col \<in> set (columns df)) required_columns \<and>
           snd (validate_data df) =
             df\<lparr>rows := assign_sleep_end ends
                           (assign_sleep_start starts (assign_date dates (rows df)))\<rparr>"
proof -
  have cols: "list_all (\<lambda>col. col \<in> set (columns df)) required_columns"
    using assms by (auto simp: validate_data_def split: if_splits)
  obtain dates where d: "to_datetime (map date_cell (rows df)) = Inr dates"
    using assms cols
    by (cases "to_datetime (map date_cell (rows df))") (auto simp: validate_data_def)
  have ld: "length dates = length (rows df)" using to_datetime_length [OF d] by simp
  let ?r1 = "assign_date dates (rows df)"
  have s1: "map sleep_start_cell ?r1 = map sleep_start_cell (rows df)"
    by (rule assign_date_cells [OF ld])
  obtain starts where s: "to_datetime (map sleep_start_cell (rows df)) = Inr starts"
    using assms cols d
    by (cases "to_datetime (map sleep_start_cell (rows df))")
       (auto simp: validate_data_def Let_def s1)
  have ls: "length starts = length ?r1"
    using to_datetime_length [OF s] by (simp add: assign_date_cells [OF ld])
  let ?r2 = "assign_sleep_start starts ?r1"
  have e2: "map sleep_end_cell ?r2 = map sleep_end_cell (rows df)"
    by (simp only: assign_sleep_start_cells [OF ls] assign_date_cells [OF ld])
  obtain ends where e: "to_datetime (map sleep_end_cell (rows df)) = Inr ends"
    using assms cols d s
    by (cases "to_datetime (map sleep_end_cell (rows df))")
       (auto simp: validate_data_def Let_def s1 e2)
  have "snd (validate_data df) = df\<lparr>rows := assign_sleep_end ends ?r2\<rparr>"
    using cols d s e by (simp add: validate_data_def Let_def s1 e2)
  with cols d s e show ?thesis by blast
qed

lemma process_sleep_data_ok:
  assumes "list_all (\<lambda>col. col \<in> set (columns df)) required_columns"
    and "to_datetime (map date_cell (rows df)) = Inr dates"
    and "to_datetime (map sleep_start_cell (rows df)) = Inr starts"
    and "to_datetime (map sleep_end_cell (rows df)) = Inr ends"
  shows "process_sleep_data df =
     Inr (map (\<lambda>i. \<lparr>date = dates ! i, sleep_start = starts ! i,
                      sleep_end = ends ! i, quality = map quality_cell (rows df) ! i,
                      duration = map2 (\<lambda>e s. total_seconds (e - s) / 3600) ends starts ! i,
                      latency = map2 (\<lambda>s b. total_seconds (s - b) / 60) starts
                                  (map (\<lambda>d. normalize d + 22 * ns_per_hour) dates) ! i,
                      day_of_week = map day_name dates ! i,
                      rolling_avg_duration =
                        rolling_mean 7 1
                          (map2 (\<lambda>e s. total_seconds (e - s) / 3600) ends starts) ! i,
                      rolling_avg_quality =
                        rolling_mean 7 1 (map quality_cell (rows df)) ! i\<rparr>)
               [0 ..< length (rows df)])"
  using assms by (simp add: process_sleep_data_def required_columns_def Let_def)

text \<open>Processing the validated frame gives what processing the frame as read gives.\<close>

lemma process_after_validate:
  assumes "fst (validate_data df) = Inr True"
  shows "process_sleep_data (snd (validate_data df)) = process_sleep_data df"
proof -
  obtain dates starts ends where
    d: "to_datetime (map date_cell (rows df)) = Inr dates" and
    s: "to_datetime (map sleep_start_cell (rows df)) = Inr starts" and
    e: "to_datetime (map sleep_end_cell (rows df)) = Inr ends" and
    cols: "list_all (\<lambda>col. col \<in> set (columns df)) required_columns" and
    v: "snd (validate_data df) =
             df\<lparr>rows := assign_sleep_end ends
                           (assign_sleep_start starts (assign_date dates (rows df)))\<rparr>"
    using validate_data_True [OF assms] by blast
  let ?r1 = "assign_date dates (rows df)"
  let ?r2 = "assign_sleep_start starts ?r1"
  let ?r3 = "assign_sleep_end ends ?r2"
  have ld: "length dates = length (rows df)" using to_datetime_length [OF d] by simp
  have ls: "length starts = length ?r1"
    using to_datetime_length [OF s] by (simp add: assign_date_cells [OF ld])
  have le: "length ends = length ?r2"
    using to_datetime_length [OF e]
    by (simp add: assign_date_cells [OF ld] assign_sleep_start_cells [OF ls])
  note cells = assign_sleep_end_cells [OF le] assign_sleep_start_cells [OF ls]
    assign_date_cells [OF ld]
  have 1: "map date_cell ?r3 = map Stamp dates" by (simp only: cells)
  have 2: "map sleep_start_cell ?r3 = map Stamp starts" by (simp only: cells)
  have 3: "map sleep_end_cell ?r3 = map Stamp ends" by (simp only: cells)
  have 4: "map quality_cell ?r3 = map quality_cell (rows df)" by (simp only: cells)
  have 5: "length ?r3 = length (rows df)" by (simp only: cells)
  have "process_sleep_data (df\<lparr>rows := ?r3\<rparr>) = process_sleep_data df"
    by (subst process_sleep_data_ok [OF cols d s e],
        subst process_sleep_data_ok [where dates = dates and starts = starts and ends = ends])
       (simp_all add: cols 1 2 3 4 5 to_datetime_Stamp)
  then show ?thesis by (simp only: v)
qed

text \<open>
  C10. For every input that validation accepts, processing succeeds, each row's duration
  is the difference of its parsed \<^verbatim>\<open>sleep_end\<close> and \<^verbatim>\<open>sleep_start\<close> in hours, and
  the efficiency of any table is the mean duration divided by 8, times 100. The sample
  of two nights, 23:00 to 07:00 and 23:30 to 07:30, gives the durations 8 and 8, the
  average duration 8 and the efficiency 100.
\<close>

theorem duration_and_efficiency:
  "(fst (validate_data df) = Inr True \<longrightarrow>
      (\<exists>tbl. process_sleep_data (snd (validate_data df)) = Inr tbl \<and>
             length tbl = length (rows df) \<and>
             (\<forall>i < length tbl.
                to_datetime_cell (sleep_start_cell (rows df ! i)) = Some (sleep_start (tbl ! i)) \<and>
                to_datetime_cell (sleep_end_cell (rows df ! i)) = Some (sleep_end (tbl ! i)) \<and>
                duration (tbl ! i) =
                  real_of_int (sleep_end (tbl ! i) - sleep_start (tbl ! i)) /
                  real_of_int ns_per_hour))) \<and>
   efficiency (calculate_sleep_metrics t) =
     map_option (\<lambda>m. m / 8 * 100) (mean (map duration t)) \<and>
   fst (validate_data sample_data) = Inr True \<and>
   map_sum id (map duration) (process_sleep_data (snd (validate_data sample_data))) =
     Inr [8, 8] \<and>
   map_sum id (\<lambda>t. avg_duration (calculate_sleep_metrics t))
     (process_sleep_data (snd (validate_data sample_data))) = Inr (Some 8) \<and>
   map_sum id (\<lambda>t. efficiency (calculate_sleep_metrics t))
     (process_sleep_data (snd (validate_data sample_data))) = Inr (Some 100)"
proof -
  have a: "\<exists>tbl. process_sleep_data (snd (validate_data df)) = Inr tbl \<and>
             length tbl = length (rows df) \<and>
             (\<forall>i < length tbl.
                to_datetime_cell (sleep_start_cell (rows df ! i)) = Some (sleep_start (tbl ! i)) \<and>
                to_datetime_cell (sleep_end_cell (rows df ! i)) = Some (sleep_end (tbl ! i)) \<and>
                duration (tbl ! i) =
                  real_of_int (sleep_end (tbl ! i) - sleep_start (tbl ! i)) /
                  real_of_int ns_per_hour)"
    if ok: "fst (validate_data df) = Inr True"
  proof -
    obtain dates starts ends where
      d: "to_datetime (map date_cell (rows df)) = Inr dates" and
      s: "to_datetime (map sleep_start_cell (rows df)) = Inr starts" and
      e: "to_datetime (map sleep_end_cell (rows df)) = Inr ends" and
      cols: "list_all (\<lambda>col. col \<in> set (columns df)) required_columns"
      using validate_data_True [OF ok] by blast
    let ?tbl = "map (\<lambda>i. \<lparr>date = dates ! i, sleep_start = starts ! i,
                      sleep_end = ends ! i, quality = map quality_cell (rows df) ! i,
                      duration = map2 (\<lambda>e s. total_seconds (e - s) / 3600) ends starts ! i,
                      latency = map2 (\<lambda>s b. total_seconds (s - b) / 60) starts
                                  (map (\<lambda>d. normalize d + 22 * ns_per_hour) dates) ! i,
                      day_of_week = map day_name dates ! i,
                      rolling_avg_duration =
                        rolling_mean 7 1
                          (map2 (\<lambda>e s. total_seconds (e - s) / 3600) ends starts) ! i,
                      rolling_avg_quality =
                        rolling_mean 7 1 (map quality_cell (rows df)) ! i\<rparr>)
               [0 ..< length (rows df)]"
    have p: "process_sleep_data (snd (validate_data df)) = Inr ?tbl"
      by (simp only: process_after_validate [OF ok] process_sleep_data_ok [OF cols d s e])
    have ls: "length starts = length (rows df)" using to_datetime_length [OF s] by simp
    have le: "length ends = length (rows df)" using to_datetime_length [OF e] by simp
    have n: "length ?tbl = length (rows df)" by simp
    have r: "to_datetime_cell (sleep_start_cell (rows df ! i)) = Some (sleep_start (?tbl ! i)) \<and>
             to_datetime_cell (sleep_end_cell (rows df ! i)) = Some (sleep_end (?tbl ! i)) \<and>
             duration (?tbl ! i) =
                  real_of_int (sleep_end (?tbl ! i) - sleep_start (?tbl ! i)) /
                  real_of_int ns_per_hour"
      if "i < length (rows df)" for i
      using that to_datetime_nth [OF s, of i] to_datetime_nth [OF e, of i]
      by (simp add: ls le total_seconds_def ns_per_hour_def)
    from p n r show ?thesis by (metis (no_types, lifting))
  qed
  have b: "efficiency (calculate_sleep_metrics t) =
     map_option (\<lambda>m. m / 8 * 100) (mean (map duration t))"
    by (simp add: calculate_sleep_metrics_def)
  have c: "fst (validate_data sample_data) = Inr True"
    by (simp add: validate_sample)
  have p: "process_sleep_data (snd (validate_data sample_data)) = Inr sample_table"
    by (simp add: validate_sample process_sample_parsed)
  have d: "map_sum id (map duration) (process_sleep_data (snd (validate_data sample_data))) =
     Inr [8, 8]"
    by (simp add: p sample_table_def)
  have e: "map_sum id (\<lambda>t. avg_duration (calculate_sleep_metrics t))
     (process_sleep_data (snd (validate_data sample_data))) = Inr (Some 8)"
    by (simp add: p sample_table_def calculate_sleep_metrics_def mean_def)
  have f: "map_sum id (\<lambda>t. efficiency (calculate_sleep_metrics t))
     (process_sleep_data (snd (validate_data sample_data))) = Inr (Some 100)"
    by (simp add: p sample_table_def calculate_sleep_metrics_def mean_def)
  from a b c d e f show ?thesis by blast
qed

theorem duration_and_efficiency_witness:
  "fst (validate_data sample_data) = Inr True \<and>
   process_sleep_data (snd (validate_data sample_data)) = Inr sample_table \<and>
   length sample_table = length (rows sample_data) \<and>
   to_datetime_cell (sleep_start_cell (rows sample_data ! 1)) =
     Some (sleep_start (sample_table ! 1)) \<and>
   duration (sample_table ! 1) =
     real_of_int (sleep_end (sample_table ! 1) - sleep_start (sample_table ! 1)) /
     real_of_int ns_per_hour \<and>
   duration (sample_table ! 1) = 8 \<and>
   efficiency (calculate_sleep_metrics sample_table) = Some 100"
proof -
  have h: "fst (validate_data sample_data) = Inr True"
    by (simp add: validate_sample)
  have p: "process_sleep_data (snd (validate_data sample_data)) = Inr sample_table"
    by (simp add: validate_sample process_sample_parsed)
  from duration_and_efficiency [of sample_data sample_table] h
  obtain tbl where
    t: "process_sleep_data (snd (validate_data sample_data)) = Inr tbl" and
    n: "length tbl = length (rows sample_data)" and
    r: "\<forall>i < length tbl.
          to_datetime_cell (sleep_start_cell (rows sample_data ! i)) =
            Some (sleep_start (tbl ! i)) \<and>
          to_datetime_cell (sleep_end_cell (rows sample_data ! i)) =
            Some (sleep_end (tbl ! i)) \<and>
          duration (tbl ! i) =
            real_of_int (sleep_end (tbl ! i) - sleep_start (tbl ! i)) /
            real_of_int ns_per_hour"
    by blast
  have eq: "tbl = sample_table" using t p by simp
  have 1: "1 < length tbl" by (simp add: eq sample_table_def)
  have e: "efficiency (calculate_sleep_metrics sample_table) = Some 100"
    by (simp add: sample_table_def calculate_sleep_metrics_def mean_def)
  have d: "duration (sample_table ! 1) = 8" by (simp add: sample_table_def)
  from h p n r 1 e d show ?thesis unfolding eq by blast
qed

section \<open>Validation and the caller's frame\<close>

text \<open>
  Validation accepts a frame that has the four columns, whose date and time cells all
  parse and whose qualities all lie between 0 and 100.
\<close>

lemma validate_data_accepts:
  assumes cols: "list_all (\<lambda>col. col \<in> set (columns df)) required_columns"
    and d: "to_datetime (map date_cell (rows df)) = Inr dates"
    and s: "to_datetime (map sleep_start_cell (rows df)) = Inr starts"
    and e: "to_datetime (map sleep_end_cell (rows df)) = Inr ends"
    and q: "list_all (\<lambda>r. 0 \<le> quality_cell r \<and> quality_cell r \<le> 100) (rows df)"
  shows "validate_data df =
           (Inr True, df\<lparr>rows := assign_sleep_end ends
                           (assign_sleep_start starts (assign_date dates (rows df)))\<rparr>)"
proof -
  let ?r1 = "assign_date dates (rows df)"
  let ?r2 = "assign_sleep_start starts ?r1"
  let ?r3 = "assign_sleep_end ends ?r2"
  have ld: "length dates = length (rows df)" using to_datetime_length [OF d] by simp
  have ls: "length starts = length ?r1"
    using to_datetime_length [OF s] by (simp add: assign_date_cells [OF ld])
  have le: "length ends = length ?r2"
    using to_datetime_length [OF e]
    by (simp add: assign_date_cells [OF ld] assign_sleep_start_cells [OF ls])
  note cells = assign_sleep_end_cells [OF le] assign_sleep_start_cells [OF ls]
    assign_date_cells [OF ld]
  have s1: "map sleep_start_cell ?r1 = map sleep_start_cell (rows df)" by (simp only: cells)
  have e2: "map sleep_end_cell ?r2 = map sleep_end_cell (rows df)" by (simp only: cells)
  have q3: "map quality_cell ?r3 = map quality_cell (rows df)" by (simp only: cells)
  have "list_all (\<lambda>x. 0 \<le> x \<and> x \<le> 100) (map quality_cell (rows df))"
    using q by (simp add: list_all_iff)
  then have "list_all (\<lambda>x. 0 \<le> x \<and> x \<le> 100) (map quality_cell ?r3)"
    by (simp only: q3)
  then have q': "list_all (\<lambda>r. 0 \<le> quality_cell r \<and> quality_cell r \<le> 100) ?r3"
    by (simp add: list_all_iff)
  show ?thesis
    using cols d s e q' by (simp add: validate_data_def Let_def s1 e2)
qed

text \<open>
  C5. \<^verbatim>\<open>validate_data\<close> returns \<^verbatim>\<open>True\<close> on the sample frame, and the frame it
  leaves is not the frame it was given: the texts of the three date and time columns
  have been replaced by time stamps.
\<close>

theorem validate_data_rewrites_its_argument:
  "fst (validate_data sample_data) = Inr True \<and>
   snd (validate_data sample_data) \<noteq> sample_data \<and>
   map date_cell (rows sample_data) = [Text ''2023-01-01'', Text ''2023-01-02''] \<and>
   map date_cell (rows (snd (validate_data sample_data))) =
     [Stamp 1672531200000000000, Stamp 1672617600000000000]"
  by (simp only: validate_sample fst_conv snd_conv)
     (simp add: sample_parsed_def sample_data_def)

section \<open>The statistical analysis\<close>

lemma mode_0_Nil: "mode_0 [] = Inl (KeyError ''0'')"
  by (simp add: mode_0_def)

lemma mode_0_returns:
  assumes "hs \<noteq> []"
  shows "\<exists>h. mode_0 hs = Inr h"
proof -
  let ?c = "count_list hs"
  let ?m = "fold max (map ?c hs) 0"
  have m: "?m = Max (set (0 # map ?c hs))" by (simp only: Max.set_eq_fold)
  have "?m \<in> set (0 # map ?c hs)" unfolding m by (rule Max_in) simp_all
  moreover have "?c (hd hs) \<le> ?m" unfolding m using assms by (intro Max_ge) simp_all
  moreover have "0 < ?c (hd hs)" using assms by (cases hs) simp_all
  ultimately obtain h where "h \<in> set hs" "?c h = ?m" by auto
  then have "filter (\<lambda>h. ?c h = ?m) hs \<noteq> []" by (auto simp: filter_empty_conv)
  then show ?thesis by (auto simp: mode_0_def split: list.splits)
qed

lemma first_extreme_returns:
  assumes "kvs \<noteq> []" and "idx_all_nan lib = None"
  shows "\<exists>d. first_extreme message better lib kvs = Inr d"
  using assms by (auto simp: first_extreme_def split: list.splits)

lemma groupby_day_of_week_nonempty:
  assumes "df \<noteq> []"
  shows "groupby_day_of_week col df \<noteq> []"
proof -
  have "set (sort (remdups (map day_of_week df))) = day_of_week ` set df" by simp
  moreover have "day_of_week ` set df \<noteq> {}" using assms by simp
  ultimately have "sort (remdups (map day_of_week df)) \<noteq> []"
    by (metis set_empty)
  then show ?thesis by (simp add: groupby_day_of_week_def)
qed

text \<open>When the analysis returns on a table that has rows.\<close>

lemma perform_statistical_analysis_returns:
  assumes "df \<noteq> []"
    and "skew lib (map duration df) = Inr sk"
    and "kurtosis lib (map duration df) = Inr ku"
    and "normaltest lib (map duration df) = Inr p"
    and "idx_all_nan lib = None"
  shows "\<exists>a. perform_statistical_analysis lib df = Inr a"
proof -
  obtain h where h: "mode_0 (map (\<lambda>r. hour (sleep_start r)) df) = Inr h"
    using mode_0_returns [of "map (\<lambda>r. hour (sleep_start r)) df"] assms(1) by auto
  have g: "map f (groupby_day_of_week col df) \<noteq> []" for f col
    using groupby_day_of_week_nonempty [OF assms(1)] by simp
  obtain b where b: "idxmax lib (map (\<lambda>(day, vs). (day, mean vs))
                       (groupby_day_of_week quality df)) = Inr b"
    unfolding idxmax_def using first_extreme_returns [OF g assms(5)] by blast
  obtain l where l: "idxmax lib (map (\<lambda>(day, vs). (day, mean vs))
                       (groupby_day_of_week duration df)) = Inr l"
    unfolding idxmax_def using first_extreme_returns [OF g assms(5)] by blast
  obtain c where c: "idxmin lib (map (\<lambda>(day, vs). (day, std vs))
                       (groupby_day_of_week duration df)) = Inr c"
    unfolding idxmin_def using first_extreme_returns [OF g assms(5)] by blast
  show ?thesis
    by (simp add: perform_statistical_analysis_def Let_def assms(2-4) h b l c)
qed

text \<open>
  It also returns, whatever \<^verbatim>\<open>idxmin\<close> does on NaN, when some day of the week
  occurs twice.
\<close>

lemma first_extreme_returns_valid:
  assumes "(k, Some v) \<in> set kvs"
  shows "\<exists>d. first_extreme message better lib kvs = Inr d"
proof -
  have "(k, v) \<in> set (valid_entries kvs)"
    using assms by (force simp: valid_entries_def)
  then have "valid_entries kvs \<noteq> []" by auto
  moreover have "kvs \<noteq> []" using assms by auto
  ultimately show ?thesis by (auto simp: first_extreme_def split: list.splits)
qed

lemma group_entry:
  assumes "r \<in> set df"
  shows "(day_of_week r, f (map col (filter (\<lambda>r'. day_of_week r' = day_of_week r) df)))
           \<in> set (map (\<lambda>(day, vs). (day, f vs)) (groupby_day_of_week col df))"
  using assms by (force simp: groupby_day_of_week_def)

lemma perform_statistical_analysis_returns_repeated_day:
  assumes "r \<in> set df"
    and "2 \<le> length (filter (\<lambda>r'. day_of_week r' = day_of_week r) df)"
    and "skew lib (map duration df) = Inr sk"
    and "kurtosis lib (map duration df) = Inr ku"
    and "normaltest lib (map duration df) = Inr p"
  shows "\<exists>a. perform_statistical_analysis lib df = Inr a"
proof -
  let ?g = "filter (\<lambda>r'. day_of_week r' = day_of_week r) df"
  have ne: "df \<noteq> []" using assms(1) by auto
  obtain h where h: "mode_0 (map (\<lambda>r. hour (sleep_start r)) df) = Inr h"
    using mode_0_returns [of "map (\<lambda>r. hour (sleep_start r)) df"] ne by auto
  have g: "?g \<noteq> []" using assms(2) by auto
  obtain mq where mq: "mean (map quality ?g) = Some mq" using g by (simp add: mean_def)
  obtain md where md: "mean (map duration ?g) = Some md" using g by (simp add: mean_def)
  obtain sd where sd: "std (map duration ?g) = Some sd"
    using assms(2) by (simp add: std_def Let_def)
  obtain b where b: "idxmax lib (map (\<lambda>(day, vs). (day, mean vs))
                       (groupby_day_of_week quality df)) = Inr b"
    unfolding idxmax_def
    using first_extreme_returns_valid [OF group_entry [OF assms(1), of mean quality, unfolded mq]]
    by blast
  obtain l where l: "idxmax lib (map (\<lambda>(day, vs). (day, mean vs))
                       (groupby_day_of_week duration df)) = Inr l"
    unfolding idxmax_def
    using first_extreme_returns_valid [OF group_entry [OF assms(1), of mean duration, unfolded md]]
    by blast
  obtain c where c: "idxmin lib (map (\<lambda>(day, vs). (day, std vs))
                       (groupby_day_of_week duration df)) = Inr c"
    unfolding idxmin_def
    using first_extreme_returns_valid [OF group_entry [OF assms(1), of std duration, unfolded sd]]
    by blast
  show ?thesis
    by (simp add: perform_statistical_analysis_def Let_def assms(3-5) h b l c)
qed

text \<open>On the table without rows the analysis raises, whatever the libraries do.\<close>

lemma perform_statistical_analysis_Nil:
  "\<exists>e. perform_statistical_analysis lib [] = Inl e"
  by (auto simp: perform_statistical_analysis_def mode_0_Nil split: sum.splits)

text \<open>What a returned analysis holds.\<close>

lemma perform_statistical_analysis_Inr:
  assumes "perform_statistical_analysis lib df = Inr a"
  shows "Quality_Distribution (Sleep_Quality a) =
           [(''Excellent (90-100)'', length (filter (\<lambda>r. quality r \<ge> 90) df)),
            (''Good (80-89)'', length (filter (\<lambda>r. quality r \<ge> 80 \<and> quality r < 90) df)),
            (''Fair (70-79)'', length (filter (\<lambda>r. quality r \<ge> 70 \<and> quality r < 80) df)),
            (''Poor (<70)'', length (filter (\<lambda>r. quality r < 70) df))]"
    and "Standard_Deviation (Sleep_Duration a) = std (map duration df)"
    and "Quality_Variation (Sleep_Quality a) = std (map quality df)"
    and "Sleep_Schedule_Consistency (Sleep_Patterns a) =
           map_option (\<lambda>s. 100 - s * 10)
             (std (map (\<lambda>r. real_of_int (hour (sleep_start r))) df))"
    and "idxmin lib (map (\<lambda>(day, vs). (day, std vs)) (groupby_day_of_week duration df)) =
           Inr (Most_Consistent_Day (Sleep_Patterns a))"
    and "df \<noteq> []"
  using assms
  by (auto simp: perform_statistical_analysis_def Let_def mode_0_Nil comp_def
           split: sum.splits)

subsection \<open>The quality distribution\<close>

text \<open>
  C7, as stated, fails on the table without rows: there the analysis returns no bucket
  counts at all, it raises \<^verbatim>\<open>KeyError\<close> when it looks up the most common bedtime.
\<close>

theorem analysis_raises_without_rows:
  "perform_statistical_analysis nan_libraries [] = Inl (KeyError ''0'')"
  by (simp add: perform_statistical_analysis_def nan_libraries_def mode_0_Nil)

text \<open>
  C7, amended. For every feature table with quality values between 0 and 100 on which
  the analysis returns, the count under Excellent is the number of rows with a quality
  in [90,100], under Good of those in [80,90), under Fair of those in [70,80) and under
  Poor of those in [0,70); the four counts add up to the number of rows, and when every
  quality is 70 the bucket Fair holds all rows and the others none.
\<close>

theorem quality_buckets:
  assumes "perform_statistical_analysis lib df = Inr a"
    and "\<forall>r \<in> set df. 0 \<le> quality r \<and> quality r \<le> 100"
  shows "Quality_Distribution (Sleep_Quality a) =
           [(''Excellent (90-100)'',
             length (filter (\<lambda>r. 90 \<le> quality r \<and> quality r \<le> 100) df)),
            (''Good (80-89)'', length (filter (\<lambda>r. 80 \<le> quality r \<and> quality r < 90) df)),
            (''Fair (70-79)'', length (filter (\<lambda>r. 70 \<le> quality r \<and> quality r < 80) df)),
            (''Poor (<70)'', length (filter (\<lambda>r. 0 \<le> quality r \<and> quality r < 70) df))] \<and>
         sum_list (map snd (Quality_Distribution (Sleep_Quality a))) = length df \<and>
         ((\<forall>r \<in> set df. quality r = 70) \<longrightarrow>
            Quality_Distribution (Sleep_Quality a) =
              [(''Excellent (90-100)'', 0), (''Good (80-89)'', 0),
               (''Fair (70-79)'', length df), (''Poor (<70)'', 0)])"
proof -
  note q = perform_statistical_analysis_Inr(1) [OF assms(1)]
  have e: "filter (\<lambda>r. quality r \<ge> 90) df =
           filter (\<lambda>r. 90 \<le> quality r \<and> quality r \<le> 100) df"
    using assms(2) by (intro filter_cong) auto
  have p: "filter (\<lambda>r. quality r < 70) df =
           filter (\<lambda>r. 0 \<le> quality r \<and> quality r < 70) df"
    using assms(2) by (intro filter_cong) auto
  have 1: "Quality_Distribution (Sleep_Quality a) =
           [(''Excellent (90-100)'',
             length (filter (\<lambda>r. 90 \<le> quality r \<and> quality r \<le> 100) df)),
            (''Good (80-89)'', length (filter (\<lambda>r. 80 \<le> quality r \<and> quality r < 90) df)),
            (''Fair (70-79)'', length (filter (\<lambda>r. 70 \<le> quality r \<and> quality r < 80) df)),
            (''Poor (<70)'', length (filter (\<lambda>r. 0 \<le> quality r \<and> quality r < 70) df))]"
    by (simp only: q e p)
  have "length (filter (\<lambda>r. quality r \<ge> 90) df) +
        length (filter (\<lambda>r. quality r \<ge> 80 \<and> quality r < 90) df) +
        length (filter (\<lambda>r. quality r \<ge> 70 \<and> quality r < 80) df) +
        length (filter (\<lambda>r. quality r < 70) df) = length df"
    by (induction df) auto
  then have 2: "sum_list (map snd (Quality_Distribution (Sleep_Quality a))) = length df"
    by (simp add: q)
  have 3: "Quality_Distribution (Sleep_Quality a) =
              [(''Excellent (90-100)'', 0), (''Good (80-89)'', 0),
               (''Fair (70-79)'', length df), (''Poor (<70)'', 0)]"
    if "\<forall>r \<in> set df. quality r = 70"
    using that by (simp add: q filter_empty_conv)
  from 1 2 3 show ?thesis by blast
qed

theorem quality_buckets_witness:
  "list_all (\<lambda>r. 0 \<le> quality r \<and> quality r \<le> 100)
     (replicate 3 (full_night\<lparr>quality := 70\<rparr>)) \<and>
   list_all (\<lambda>r. quality r = 70) (replicate 3 (full_night\<lparr>quality := 70\<rparr>)) \<and>
   map_sum id (\<lambda>a. Quality_Distribution (Sleep_Quality a))
     (perform_statistical_analysis strict_libraries
        (replicate 3 (full_night\<lparr>quality := 70\<rparr>))) =
   Inr [(''Excellent (90-100)'', 0), (''Good (80-89)'', 0),
        (''Fair (70-79)'', 3), (''Poor (<70)'', 0)]"
proof -
  let ?r = "full_night\<lparr>quality := 70\<rparr>"
  let ?t = "replicate 3 ?r"
  have m: "?r \<in> set ?t" by simp
  have n: "2 \<le> length (filter (\<lambda>r'. day_of_week r' = day_of_week ?r) ?t)" by simp
  obtain a where a: "perform_statistical_analysis strict_libraries ?t = Inr a"
    using perform_statistical_analysis_returns_repeated_day
            [OF m n, of strict_libraries None None None]
    by (auto simp: strict_libraries_def)
  have r: "\<forall>r \<in> set ?t. 0 \<le> quality r \<and> quality r \<le> 100" by simp
  have s: "\<forall>r \<in> set ?t. quality r = 70" by simp
  from quality_buckets [OF a r] s
  have "Quality_Distribution (Sleep_Quality a) =
              [(''Excellent (90-100)'', 0), (''Good (80-89)'', 0),
               (''Fair (70-79)'', length ?t), (''Poor (<70)'', 0)]"
    by blast
  then show ?thesis by (simp add: a list_all_iff)
qed

subsection \<open>Fewer than two records\<close>

lemma hour_full_night: "hour (sleep_start full_night) = 23"
  by (simp add: full_night_def hour_def ns_per_hour_def ns_per_second_def)

text \<open>
  C6, as stated, fails below two records. On the table without records the metrics
  return the consistency as NaN without any error, while the analysis of the same table
  raises \<^verbatim>\<open>KeyError\<close>. On one record the metrics again return NaN, while the
  analysis raises when \<^verbatim>\<open>idxmin\<close> raises on the deviations per day, which are all
  NaN. So the statistics that depend on a standard deviation neither all raise nor all
  return one sentinel.
\<close>

theorem no_single_policy_below_two_records:
  "consistency (calculate_sleep_metrics []) = None \<and>
   perform_statistical_analysis nan_libraries [] = Inl (KeyError ''0'') \<and>
   consistency (calculate_sleep_metrics [full_night]) = None \<and>
   perform_statistical_analysis strict_libraries [full_night] =
     Inl (ValueError ''Encountered all NA values'')"
  by (simp add: calculate_sleep_metrics_def std_def perform_statistical_analysis_def
        nan_libraries_def strict_libraries_def mode_0_def groupby_day_of_week_def
        idxmax_def idxmin_def first_extreme_def valid_entries_def mean_def
        hour_full_night)

text \<open>
  C6, amended. On fewer than two records the metrics return the consistency as NaN
  without an error. The analysis raises on the table without records: the exception of
  the first statistics function that raises, and otherwise \<^verbatim>\<open>KeyError\<close> from the
  most common bedtime. On one record the analysis returns only when \<^verbatim>\<open>idxmin\<close>
  answers NaN for the deviations per day, which are all NaN, and what it then returns has
  NaN as the standard deviation of the duration, as the variation of the quality, as the
  schedule consistency and as the most consistent day.
\<close>

theorem small_sample_statistics:
  assumes "length df < 2"
  shows "consistency (calculate_sleep_metrics df) = None \<and>
         (df = [] \<longrightarrow>
            perform_statistical_analysis lib df =
              (case skew lib [] of Inl e \<Rightarrow> Inl e | Inr sk \<Rightarrow>
               case kurtosis lib [] of Inl e \<Rightarrow> Inl e | Inr ku \<Rightarrow>
               case normaltest lib [] of Inl e \<Rightarrow> Inl e | Inr p \<Rightarrow> Inl (KeyError ''0''))) \<and>
         (perform_statistical_analysis lib df = Inr a \<longrightarrow>
            length df = 1 \<and> idx_all_nan lib = None \<and>
            Standard_Deviation (Sleep_Duration a) = None \<and>
            Quality_Variation (Sleep_Quality a) = None \<and>
            Sleep_Schedule_Consistency (Sleep_Patterns a) = None \<and>
            Most_Consistent_Day (Sleep_Patterns a) = None)"
proof -
  have 1: "consistency (calculate_sleep_metrics df) = None"
    using assms by (simp add: calculate_sleep_metrics_def std_def)
  have 2: "perform_statistical_analysis lib [] =
              (case skew lib [] of Inl e \<Rightarrow> Inl e | Inr sk \<Rightarrow>
               case kurtosis lib [] of Inl e \<Rightarrow> Inl e | Inr ku \<Rightarrow>
               case normaltest lib [] of Inl e \<Rightarrow> Inl e | Inr p \<Rightarrow> Inl (KeyError ''0''))"
    by (simp add: perform_statistical_analysis_def mode_0_Nil split: sum.splits)
  have 3: "length df = 1 \<and> idx_all_nan lib = None \<and>
            Standard_Deviation (Sleep_Duration a) = None \<and>
            Quality_Variation (Sleep_Quality a) = None \<and>
            Sleep_Schedule_Consistency (Sleep_Patterns a) = None \<and>
            Most_Consistent_Day (Sleep_Patterns a) = None"
    if ret: "perform_statistical_analysis lib df = Inr a"
  proof -
    note f = perform_statistical_analysis_Inr [OF ret]
    from f(6) assms obtain r where df: "df = [r]"
      by (cases df) auto
    have sd: "Standard_Deviation (Sleep_Duration a) = None"
      by (simp add: f(2) df std_def)
    have qv: "Quality_Variation (Sleep_Quality a) = None"
      by (simp add: f(3) df std_def)
    have sc: "Sleep_Schedule_Consistency (Sleep_Patterns a) = None"
      by (simp add: f(4) df std_def)
    have "idxmin lib [(day_of_week r, None)] = Inr (Most_Consistent_Day (Sleep_Patterns a))"
      using f(5) by (simp add: df groupby_day_of_week_def std_def)
    then have "idx_all_nan lib = None \<and> Most_Consistent_Day (Sleep_Patterns a) = None"
      by (auto simp: idxmin_def first_extreme_def valid_entries_def split: option.splits)
    with sd qv sc df show ?thesis by simp
  qed
  from 1 2 3 show ?thesis by blast
qed

theorem small_sample_statistics_witness:
  "length ([] :: feature_table) < 2 \<and> length [full_night] < 2 \<and>
   consistency (calculate_sleep_metrics [full_night]) = None \<and>
   perform_statistical_analysis nan_libraries [] = Inl (KeyError ''0'') \<and>
   map_sum id (\<lambda>a. Standard_Deviation (Sleep_Duration a))
     (perform_statistical_analysis nan_libraries [full_night]) = Inr None \<and>
   map_sum id (\<lambda>a. Sleep_Schedule_Consistency (Sleep_Patterns a))
     (perform_statistical_analysis nan_libraries [full_night]) = Inr None \<and>
   map_sum id (\<lambda>a. Most_Consistent_Day (Sleep_Patterns a))
     (perform_statistical_analysis nan_libraries [full_night]) = Inr None"
proof -
  have ne: "[full_night] \<noteq> []" by simp
  obtain a where a: "perform_statistical_analysis nan_libraries [full_night] = Inr a"
    using perform_statistical_analysis_returns [OF ne, of nan_libraries None None None]
    by (auto simp: nan_libraries_def)
  have l1: "length [full_night] < 2" by simp
  have l0: "length ([] :: feature_table) < 2" by simp
  from small_sample_statistics [OF l1, of nan_libraries a] a
  have one: "consistency (calculate_sleep_metrics [full_night]) = None \<and>
             Standard_Deviation (Sleep_Duration a) = None \<and>
             Sleep_Schedule_Consistency (Sleep_Patterns a) = None \<and>
             Most_Consistent_Day (Sleep_Patterns a) = None"
    by blast
  from small_sample_statistics [OF l0, of nan_libraries a]
  have zero: "perform_statistical_analysis nan_libraries [] = Inl (KeyError ''0'')"
    by (simp add: nan_libraries_def)
  from one zero l0 l1 show ?thesis by (simp add: a)
qed

end
